theory Spec2Isabelle
  imports Main "HOL-Library.Word"
begin

unbundle bit_operations_syntax

section \<open>Data model\<close>

type_synonym u8 = "8 word"
type_synonym u32 = "32 word"
type_synonym u64 = "64 word"

text \<open>
  The driver's functions return an \<open>int\<close>: \<open>ERROR_OK\<close> or an error code. A result is a
  sum here, \<open>Inr\<close> for \<open>ERROR_OK\<close> (with the value written through the out-pointer, if any)
  and \<open>Inl\<close> for an error code. The named codes are the ones numicro.c mentions;
  \<open>ERROR_OTHER\<close> is any other code the debug host may hand back. Two more outcomes are
  not OpenOCD codes: \<open>ASSERTION_FAILED\<close> (an \<open>assert\<close> that does not hold stops the program)
  and \<open>OUT_OF_BOUNDS\<close> (the source indexes \<open>bank->sectors\<close> outside the array, which C
  leaves undefined).
\<close>

datatype error =
    ERROR_FAIL
  | ERROR_TARGET_NOT_HALTED
  | ERROR_TARGET_RESOURCE_NOT_AVAILABLE
  | ERROR_FLASH_OPERATION_FAILED
  | ERROR_FLASH_DST_BREAKS_ALIGNMENT
  | ERROR_COMMAND_SYNTAX_ERROR
  | ERROR_OTHER int
  | ASSERTION_FAILED
  | OUT_OF_BOUNDS

datatype target_state =
  TARGET_UNKNOWN | TARGET_RUNNING | TARGET_HALTED | TARGET_RESET | TARGET_DEBUG_RUNNING

text \<open>
  Field names carry a prefix where the C name is also the name of a local variable of the
  driver (\<open>address\<close>, \<open>offset\<close>, \<open>base\<close>, \<open>size\<close>, \<open>bank\<close>, \<open>cpu\<close>).

  \<open>struct working_area\<close>: a block of target RAM handed out by the debug host.
\<close>

record working_area =
  wa_address :: u32
  wa_size :: u32

text \<open>
  Everything the driver asks of the debug host is an event. The trace of a run is the
  list of its events, oldest first.
\<close>

datatype event =
    ReadU32 u32                        \<comment> \<open>\<open>target_read_u32(target, address, &value)\<close>\<close>
  | WriteU32 u32 u32                   \<comment> \<open>\<open>target_write_u32(target, address, value)\<close>\<close>
  | WriteMemory u32 nat nat "u8 list"  \<comment> \<open>\<open>target_write_memory(target, address, size, count, buffer)\<close>\<close>
  | WriteBuffer u32 u32 "u8 list"      \<comment> \<open>\<open>target_write_buffer(target, address, size, buffer)\<close>\<close>
  | AllocWorkingArea u32               \<comment> \<open>\<open>target_alloc_working_area(target, size, &area)\<close>\<close>
  | FreeWorkingArea working_area       \<comment> \<open>\<open>target_free_working_area(target, area)\<close>\<close>
  | RunAlgorithm u32 u32 u32 u32 u32 nat
      \<comment> \<open>\<open>target_run_algorithm\<close>: r0, r1, r2, entry point, exit point, timeout in ms\<close>
  | BusySleep nat                      \<comment> \<open>\<open>busy_sleep(ms)\<close>\<close>

text \<open>
  \<open>struct target\<close>, as far as numicro.c reads it (\<open>state\<close>, \<open>working_area_size\<close>), together
  with the debug host behind it: \<open>host\<close> answers each request, given the trace so far, with
  an error code or a 32-bit value (the word read, or the address of the area allocated);
  \<open>trace\<close> records the requests made; \<open>working_areas\<close> are the areas allocated and not yet
  freed.
\<close>

record target =
  state :: target_state
  working_area_size :: u32
  host :: "event list \<Rightarrow> event \<Rightarrow> error + u32"
  trace :: "event list"
  working_areas :: "working_area list"

text \<open>\<open>struct flash_sector\<close>; \<open>is_erased\<close> is 0, 1 or -1 (unknown), as in the flash core.\<close>

record flash_sector =
  sector_offset :: u32
  sector_size :: u32
  is_erased :: int
  is_protected :: int

text \<open>\<open>struct numicro_flash_bank_type\<close> and \<open>struct numicro_cpu_type\<close>.\<close>

record numicro_flash_bank_type =
  region_base :: u32
  region_size :: u32

record numicro_cpu_type =
  partname :: string
  partid :: u32
  n_banks :: nat
  cpu_banks :: "numicro_flash_bank_type list"

text \<open>
  \<open>struct numicro_flash_bank\<close> (the driver's private data; its \<open>write_algorithm\<close> field is
  never used) and \<open>struct flash_bank\<close>. The sector array and \<open>num_sectors\<close> are one list;
  \<open>bank->target\<close> is passed to each function as its own argument.
\<close>

record numicro_flash_bank =
  probed :: bool
  priv_cpu :: "numicro_cpu_type option"

record flash_bank =
  bank_base :: u64
  bank_size :: u32
  sectors :: "flash_sector list"
  driver_priv :: numicro_flash_bank

section \<open>Register locations and bits\<close>

definition NUMICRO_SYS_BASE :: u32 where "NUMICRO_SYS_BASE = 0x50000000"
definition NUMICRO_SYS_WRPROT :: u32 where "NUMICRO_SYS_WRPROT = 0x50000100"
definition NUMICRO_SYSCLK_AHBCLK :: u32 where "NUMICRO_SYSCLK_AHBCLK = 0x50000204"
definition NUMICRO_FLASH_ISPCON :: u32 where "NUMICRO_FLASH_ISPCON = 0x5000C000"
definition NUMICRO_FLASH_ISPADR :: u32 where "NUMICRO_FLASH_ISPADR = 0x5000C004"
definition NUMICRO_FLASH_ISPDAT :: u32 where "NUMICRO_FLASH_ISPDAT = 0x5000C008"
definition NUMICRO_FLASH_ISPCMD :: u32 where "NUMICRO_FLASH_ISPCMD = 0x5000C00C"
definition NUMICRO_FLASH_ISPTRG :: u32 where "NUMICRO_FLASH_ISPTRG = 0x5000C010"
definition NUMICRO_FLASH_CHEAT :: u32 where "NUMICRO_FLASH_CHEAT = 0x5000C01C"

definition NUMICRO_APROM_BASE :: u32 where "NUMICRO_APROM_BASE = 0x00000000"
definition NUMICRO_DATA_BASE :: u32 where "NUMICRO_DATA_BASE = 0x0001F000"
definition NUMICRO_LDROM_BASE :: u32 where "NUMICRO_LDROM_BASE = 0x00100000"
definition NUMICRO_CONFIG_BASE :: u32 where "NUMICRO_CONFIG_BASE = 0x00300000"

definition NUMICRO_CONFIG0 :: u32 where "NUMICRO_CONFIG0 = 0x5000C000"
definition NUMICRO_CONFIG1 :: u32 where "NUMICRO_CONFIG1 = 0x5000C004"

definition AHBCLK_ISP_EN :: u32 where "AHBCLK_ISP_EN = push_bit 2 1"
definition AHBCLK_SRAM_EN :: u32 where "AHBCLK_SRAM_EN = push_bit 4 1"
definition AHBCLK_TICK_EN :: u32 where "AHBCLK_TICK_EN = push_bit 5 1"

definition ISPCON_ISPEN :: u32 where "ISPCON_ISPEN = push_bit 0 1"
definition ISPCON_APUEN :: u32 where "ISPCON_APUEN = push_bit 3 1"
definition ISPCON_CFGUEN :: u32 where "ISPCON_CFGUEN = push_bit 4 1"
definition ISPCON_LDUEN :: u32 where "ISPCON_LDUEN = push_bit 5 1"
definition ISPCON_ISPFF :: u32 where "ISPCON_ISPFF = push_bit 6 1"

definition CONFIG0_LOCK_MASK :: u32 where "CONFIG0_LOCK_MASK = push_bit 1 1"

definition ISPCMD_READ :: u32 where "ISPCMD_READ = 0x00"
definition ISPCMD_WRITE :: u32 where "ISPCMD_WRITE = 0x21"
definition ISPCMD_ERASE :: u32 where "ISPCMD_ERASE = 0x22"
definition ISPCMD_CHIPERASE :: u32 where "ISPCMD_CHIPERASE = 0x26"
definition ISPTRG_ISPGO :: u32 where "ISPTRG_ISPGO = push_bit 0 1"

definition REG_KEY1 :: u32 where "REG_KEY1 = 0x59"
definition REG_KEY2 :: u32 where "REG_KEY2 = 0x16"
definition REG_KEY3 :: u32 where "REG_KEY3 = 0x88"

definition NUMICRO_PAGESIZE :: u32 where "NUMICRO_PAGESIZE = 512"

section \<open>The debug host\<close>

text \<open>
  Modelled from the spec: the execution host's capability interface (section 6 of the
  specification: \<open>read_memory_word\<close>, \<open>write_memory_word\<close>, \<open>write_memory_buffer\<close>,
  \<open>allocate_scratch\<close>, \<open>free_scratch\<close>, \<open>run_routine\<close>), whose code (target.c) is not part of
  numicro.c. Each request is appended to the trace and answered by \<open>host\<close>; nothing is
  assumed about the answers.
\<close>

definition host_call :: "event \<Rightarrow> target \<Rightarrow> (error + u32) \<times> target" where
  "host_call ev t = (host t (trace t) ev, t\<lparr>trace := trace t @ [ev]\<rparr>)"

text \<open>
  Modelled from the spec: a request of the host whose answer is only a status.
\<close>

definition host_status :: "event \<Rightarrow> target \<Rightarrow> (error + unit) \<times> target" where
  "host_status ev t =
     (case host_call ev t of
        (Inl e, t') \<Rightarrow> (Inl e, t')
      | (Inr _, t') \<Rightarrow> (Inr (), t'))"

text \<open>
  Modelled from the spec: \<open>read_memory_word(addr) -> word\<close>, which may fail.
\<close>

definition target_read_u32 :: "u32 \<Rightarrow> target \<Rightarrow> (error + u32) \<times> target" where
  "target_read_u32 a t = host_call (ReadU32 a) t"

text \<open>
  Modelled from the spec: \<open>write_memory_word(addr, word)\<close>, which may fail.
\<close>

definition target_write_u32 :: "u32 \<Rightarrow> u32 \<Rightarrow> target \<Rightarrow> (error + unit) \<times> target" where
  "target_write_u32 a v t = host_status (WriteU32 a v) t"

text \<open>
  Modelled from the spec: \<open>write_memory_buffer(addr, bytes)\<close>, as \<open>cnt\<close> units of \<open>sz\<close> bytes.
\<close>

definition target_write_memory ::
  "u32 \<Rightarrow> nat \<Rightarrow> nat \<Rightarrow> u8 list \<Rightarrow> target \<Rightarrow> (error + unit) \<times> target" where
  "target_write_memory a sz cnt buffer t =
     host_status (WriteMemory a sz cnt (take (sz * cnt) buffer)) t"

text \<open>
  Modelled from the spec: \<open>write_memory_buffer(addr, bytes)\<close>, as \<open>sz\<close> bytes.
\<close>

definition target_write_buffer :: "u32 \<Rightarrow> u32 \<Rightarrow> u8 list \<Rightarrow> target \<Rightarrow> (error + unit) \<times> target" where
  "target_write_buffer a sz buffer t = host_status (WriteBuffer a sz (take (unat sz) buffer)) t"

text \<open>
  Modelled from the spec: \<open>allocate_scratch(size) -> handle | resource_unavailable\<close>; the area
  granted is recorded as allocated.
\<close>

definition target_alloc_working_area :: "u32 \<Rightarrow> target \<Rightarrow> (error + working_area) \<times> target" where
  "target_alloc_working_area sz t =
     (case host_call (AllocWorkingArea sz) t of
        (Inl e, t') \<Rightarrow> (Inl e, t')
      | (Inr a, t') \<Rightarrow>
          (let area = \<lparr>wa_address = a, wa_size = sz\<rparr>
           in (Inr area, t'\<lparr>working_areas := area # working_areas t'\<rparr>)))"

text \<open>
  Modelled from the spec: \<open>free_scratch(handle)\<close>; it has no result.
\<close>

definition target_free_working_area :: "working_area \<Rightarrow> target \<Rightarrow> target" where
  "target_free_working_area area t =
     t\<lparr>trace := trace t @ [FreeWorkingArea area],
       working_areas := remove1 area (working_areas t)\<rparr>"

text \<open>
  Modelled from the spec: \<open>run_routine(entry_addr, timeout_ms, in_params[], out_params[]) -> status\<close>,
  with the three registers of the calling convention.
\<close>

definition target_run_algorithm ::
  "u32 \<Rightarrow> u32 \<Rightarrow> u32 \<Rightarrow> u32 \<Rightarrow> u32 \<Rightarrow> nat \<Rightarrow> target \<Rightarrow> (error + unit) \<times> target" where
  "target_run_algorithm r0 r1 r2 entry_point exit_point timeout_ms t =
     host_status (RunAlgorithm r0 r1 r2 entry_point exit_point timeout_ms) t"

text \<open>
  Modelled from the spec: the pause between two polls, which only takes time.
\<close>

definition busy_sleep :: "nat \<Rightarrow> target \<Rightarrow> target" where
  "busy_sleep ms t = t\<lparr>trace := trace t @ [BusySleep ms]\<rparr>"

text \<open>
  Sequencing with the source's \<open>if (retval != ERROR_OK) return retval;\<close> after each call.
\<close>

definition returnE :: "'a \<Rightarrow> target \<Rightarrow> (error + 'a) \<times> target" where
  "returnE v t = (Inr v, t)"

definition bindE ::
  "(target \<Rightarrow> (error + 'a) \<times> target) \<Rightarrow> ('a \<Rightarrow> target \<Rightarrow> (error + 'b) \<times> target)
     \<Rightarrow> target \<Rightarrow> (error + 'b) \<times> target" where
  "bindE m f t = (case m t of (Inl e, t') \<Rightarrow> (Inl e, t') | (Inr v, t') \<Rightarrow> f v t')"

section \<open>Register unlock and ISP initialisation\<close>

definition numicro_reg_unlock :: "target \<Rightarrow> (error + unit) \<times> target" where
  "numicro_reg_unlock =
     bindE (target_read_u32 NUMICRO_SYS_WRPROT) (\<lambda>is_protected.
     bindE (if is_protected = 0 then
              bindE (target_write_u32 NUMICRO_SYS_WRPROT REG_KEY1) (\<lambda>_.
              bindE (target_write_u32 NUMICRO_SYS_WRPROT REG_KEY2) (\<lambda>_.
                     target_write_u32 NUMICRO_SYS_WRPROT REG_KEY3))
            else returnE ()) (\<lambda>_.
     bindE (target_read_u32 NUMICRO_SYS_WRPROT) (\<lambda>is_protected.
            returnE ())))"

definition numicro_init_isp :: "target \<Rightarrow> (error + unit) \<times> target" where
  "numicro_init_isp t =
     (if state t \<noteq> TARGET_HALTED then (Inl ERROR_TARGET_NOT_HALTED, t)
      else
        (bindE numicro_reg_unlock (\<lambda>_.
         bindE (target_read_u32 NUMICRO_SYSCLK_AHBCLK) (\<lambda>reg_stat.
         bindE (target_write_u32 NUMICRO_SYSCLK_AHBCLK
                  (reg_stat OR (AHBCLK_ISP_EN OR AHBCLK_SRAM_EN OR AHBCLK_TICK_EN))) (\<lambda>_.
         bindE (target_read_u32 NUMICRO_FLASH_ISPCON) (\<lambda>reg_stat.
         bindE (target_write_u32 NUMICRO_FLASH_ISPCON
                  (reg_stat OR (ISPCON_ISPFF OR ISPCON_LDUEN OR ISPCON_APUEN
                                OR ISPCON_CFGUEN OR ISPCON_ISPEN))) (\<lambda>_.
                target_write_u32 NUMICRO_FLASH_CHEAT 1)))))) t)"

section \<open>The flash command engine\<close>

text \<open>
  The polling loop of \<open>numicro_fmc_cmd\<close>: \<open>timeout\<close> is a \<open>uint32_t\<close>, so
  \<open>timeout-- <= 0\<close> holds exactly when it is 0.
\<close>

function numicro_fmc_cmd_wait :: "u32 \<Rightarrow> target \<Rightarrow> (error + unit) \<times> target" where
  "numicro_fmc_cmd_wait timeout t =
     (case target_read_u32 NUMICRO_FLASH_ISPTRG t of
        (Inl e, t') \<Rightarrow> (Inl e, t')
      | (Inr status, t') \<Rightarrow>
          if status AND ISPTRG_ISPGO = 0 then (Inr (), t')
          else if timeout \<le> 0 then (Inl ERROR_FAIL, t')
          else numicro_fmc_cmd_wait (timeout - 1) (busy_sleep 1 t'))"
  by pat_completeness auto
termination
  by (relation "measure (\<lambda>(timeout, t). unat timeout)")
     (auto simp: unat_minus_one unat_gt_0)

definition numicro_fmc_cmd :: "u32 \<Rightarrow> u32 \<Rightarrow> u32 \<Rightarrow> target \<Rightarrow> (error + u32) \<times> target" where
  "numicro_fmc_cmd cmd addr wdata =
     bindE (target_write_u32 NUMICRO_FLASH_ISPCMD cmd) (\<lambda>_.
     bindE (target_write_u32 NUMICRO_FLASH_ISPDAT wdata) (\<lambda>_.
     bindE (target_write_u32 NUMICRO_FLASH_ISPADR addr) (\<lambda>_.
     bindE (target_write_u32 NUMICRO_FLASH_ISPTRG ISPTRG_ISPGO) (\<lambda>_.
     bindE (numicro_fmc_cmd_wait 100) (\<lambda>_.
            target_read_u32 NUMICRO_FLASH_ISPDAT)))))"


section \<open>The bulk-write accelerator\<close>

text \<open>\<open>numicro_flash_write_code\<close>, the routine downloaded to target RAM (64 bytes).\<close>

definition numicro_flash_write_code :: "u8 list" where
  "numicro_flash_write_code =
     [0x04, 0x1C, 0x00, 0x23, 0x0D, 0x1A, 0x67, 0x19,
      0x93, 0x42, 0x0C, 0xD0, 0x08, 0x4E, 0x37, 0x60,
      0x80, 0xCC, 0x08, 0x4D, 0x2F, 0x60, 0x08, 0x4D,
      0x01, 0x26, 0x2E, 0x60, 0x2F, 0x68, 0xFF, 0x07,
      0xFC, 0xD4, 0x01, 0x33, 0xEE, 0xE7, 0x05, 0x4B,
      0x18, 0x68, 0x40, 0x21, 0x08, 0x40, 0x00, 0xBE,
      0x04, 0xC0, 0x00, 0x50, 0x08, 0xC0, 0x00, 0x50,
      0x10, 0xC0, 0x00, 0x50, 0x00, 0xC0, 0x00, 0x50]"

text \<open>
  The loop \<open>while (target_alloc_working_area(target, buffer_size, &source) != ERROR_OK)\<close>
  of \<open>numicro_writeblock\<close>; it returns the data area and the size it was given.
\<close>

function numicro_writeblock_alloc_source ::
  "u32 \<Rightarrow> working_area \<Rightarrow> target \<Rightarrow> (error + working_area \<times> u32) \<times> target" where
  "numicro_writeblock_alloc_source buffer_size write_algorithm t =
     (case target_alloc_working_area buffer_size t of
        (Inr source, t1) \<Rightarrow> (Inr (source, buffer_size), t1)
      | (Inl _, t1) \<Rightarrow>
          (let buffer_size' = buffer_size div 4
           in if buffer_size' \<le> 256 then
                (Inl ERROR_TARGET_RESOURCE_NOT_AVAILABLE,
                 target_free_working_area write_algorithm t1)
              else numicro_writeblock_alloc_source buffer_size' write_algorithm t1))"
  by pat_completeness auto
termination
proof (relation "measure (\<lambda>(buffer_size, write_algorithm, t). unat buffer_size)")
  show "wf (measure (\<lambda>(buffer_size, write_algorithm, t). unat buffer_size))"
    by simp
next
  fix buffer_size :: u32 and write_algorithm :: working_area and t :: target
    and x :: "(error + working_area) \<times> target" and x1 :: "error + working_area"
    and t1 :: target and e :: error and buffer_size' :: u32
  assume sz: "buffer_size' = buffer_size div 4" and big: "\<not> buffer_size' \<le> 256"
  from big have "256 < unat buffer_size'"
    by (simp add: word_le_nat_alt)
  moreover from sz have "unat buffer_size' = unat buffer_size div 4"
    by (simp add: unat_div)
  ultimately have "unat buffer_size' < unat buffer_size"
    by arith
  then show "((buffer_size', write_algorithm, t1), (buffer_size, write_algorithm, t))
      \<in> measure (\<lambda>(buffer_size, write_algorithm, t). unat buffer_size)"
    by simp
qed

text \<open>
  The loop \<open>while (count > 0)\<close> of \<open>numicro_writeblock\<close>. With a \<open>buffer_size\<close> below 4 a
  run takes no word and the C loop goes on for as long as the host answers with success,
  so the loop is a partial function: \<open>None\<close> stands for a run that does not return.
\<close>

partial_function (option) numicro_writeblock_loop ::
  "working_area \<Rightarrow> working_area \<Rightarrow> u32 \<Rightarrow> u8 list \<Rightarrow> u32 \<Rightarrow> u32 \<Rightarrow> target
     \<Rightarrow> ((error + unit) \<times> target) option" where
  "numicro_writeblock_loop write_algorithm source buffer_size buffer addr count t =
     (if 0 < count then
        (let thisrun_count = (if buffer_size div 4 < count then buffer_size div 4 else count)
         in case target_write_buffer (wa_address source) (thisrun_count * 4) buffer t of
              (Inl e, t1) \<Rightarrow> Some (Inl e, t1)
            | (Inr _, t1) \<Rightarrow>
                (case target_run_algorithm (wa_address source) addr thisrun_count
                        (wa_address write_algorithm) 0 100000 t1 of
                   (Inl _, t2) \<Rightarrow> Some (Inl ERROR_FLASH_OPERATION_FAILED, t2)
                 | (Inr _, t2) \<Rightarrow>
                     numicro_writeblock_loop write_algorithm source buffer_size
                       (drop (unat (thisrun_count * 4)) buffer)
                       (addr + thisrun_count * 4) (count - thisrun_count) t2))
      else Some (Inr (), t))"

declare numicro_writeblock_loop.simps [code]

definition numicro_writeblock ::
  "flash_bank \<Rightarrow> u8 list \<Rightarrow> u32 \<Rightarrow> u32 \<Rightarrow> target \<Rightarrow> ((error + unit) \<times> target) option" where
  "numicro_writeblock bank buffer offset count t =
     (let buffer_size = (if 1024 < working_area_size t div 2
                         then working_area_size t div 2 else 1024);
          addr = (ucast (bank_base bank + ucast offset) :: u32)
      in if offset AND 1 \<noteq> 0 then Some (Inl ERROR_FLASH_DST_BREAKS_ALIGNMENT, t)
         else
           (case target_alloc_working_area (of_nat (length numicro_flash_write_code)) t of
              (Inl _, t1) \<Rightarrow> Some (Inl ERROR_TARGET_RESOURCE_NOT_AVAILABLE, t1)
            | (Inr write_algorithm, t1) \<Rightarrow>
                (case target_write_buffer (wa_address write_algorithm)
                        (of_nat (length numicro_flash_write_code)) numicro_flash_write_code t1 of
                   (Inl e, t2) \<Rightarrow> Some (Inl e, t2)
                 | (Inr _, t2) \<Rightarrow>
                     (case numicro_writeblock_alloc_source buffer_size write_algorithm t2 of
                        (Inl e, t3) \<Rightarrow> Some (Inl e, t3)
                      | (Inr (source, buffer_size'), t3) \<Rightarrow>
                          (case numicro_writeblock_loop write_algorithm source buffer_size'
                                  buffer addr count t3 of
                             None \<Rightarrow> None
                           | Some (retval, t4) \<Rightarrow>
                               Some (retval,
                                     target_free_working_area write_algorithm
                                       (target_free_working_area source t4)))))))"

section \<open>Lock-state query\<close>

text \<open>
  \<open>numicro_protect_check\<close> ignores what \<open>numicro_fmc_cmd\<close> returns, so \<open>config[0]\<close> keeps
  whatever the uninitialised local array held when the read did not reach its last step:
  that content is the parameter \<open>config\<close>.
\<close>

definition numicro_protect_check ::
  "u32 \<times> u32 \<Rightarrow> flash_bank \<Rightarrow> target \<Rightarrow> (error + unit) \<times> flash_bank \<times> target" where
  "numicro_protect_check config bank t =
     (if state t \<noteq> TARGET_HALTED then (Inl ERROR_TARGET_NOT_HALTED, bank, t)
      else
        (case numicro_init_isp t of
           (Inl e, t1) \<Rightarrow> (Inl e, bank, t1)
         | (Inr _, t1) \<Rightarrow>
             (let (r0, t2) = numicro_fmc_cmd ISPCMD_READ NUMICRO_CONFIG0 0 t1;
                  (r1, t3) = numicro_fmc_cmd ISPCMD_READ NUMICRO_CONFIG1 0 t2;
                  config0 = (case r0 of Inr v \<Rightarrow> v | Inl _ \<Rightarrow> fst config);
                  set' = (if config0 AND CONFIG0_LOCK_MASK = 0 then 1 else 0)
              in (Inr (),
                  bank\<lparr>sectors := map (\<lambda>s. s\<lparr>is_protected := set'\<rparr>) (sectors bank)\<rparr>,
                  t3))))"

section \<open>Erase\<close>

text \<open>
  The polling loop that \<open>numicro_erase\<close> and the single-word path of \<open>numicro_write\<close> both
  contain, line for line the same: it waits for the trigger register to read 0.
\<close>

function numicro_wait_trg_zero :: "u32 \<Rightarrow> target \<Rightarrow> (error + unit) \<times> target" where
  "numicro_wait_trg_zero timeout t =
     (case target_read_u32 NUMICRO_FLASH_ISPTRG t of
        (Inl e, t') \<Rightarrow> (Inl e, t')
      | (Inr status, t') \<Rightarrow>
          if status = 0 then (Inr (), t')
          else if timeout \<le> 0 then (Inl ERROR_FAIL, t')
          else numicro_wait_trg_zero (timeout - 1) (busy_sleep 1 t'))"
  by pat_completeness auto
termination
  by (relation "measure (\<lambda>(timeout, t). unat timeout)")
     (auto simp: unat_minus_one unat_gt_0)

text \<open>
  \<open>check for failure\<close>: the last step of each sector of \<open>numicro_erase\<close> and of
  \<open>numicro_write\<close>.
\<close>

definition check_for_failure :: "target \<Rightarrow> (error + unit) \<times> target" where
  "check_for_failure =
     bindE (target_read_u32 NUMICRO_FLASH_ISPCON) (\<lambda>status.
       if status AND ISPCON_ISPFF \<noteq> 0
       then target_write_u32 NUMICRO_FLASH_ISPCON (status OR ISPCON_ISPFF)
       else returnE ())"

text \<open>The body of the \<open>for\<close> loop of \<open>numicro_erase\<close>, for a sector of the array.\<close>

definition numicro_erase_sector :: "flash_bank \<Rightarrow> nat \<Rightarrow> target \<Rightarrow> (error + unit) \<times> target" where
  "numicro_erase_sector bank i =
     bindE (target_write_u32 NUMICRO_FLASH_ISPADR
              (ucast (bank_base bank + ucast (sector_offset (sectors bank ! i))))) (\<lambda>_.
     bindE (target_write_u32 NUMICRO_FLASH_ISPTRG ISPTRG_ISPGO) (\<lambda>_.
     bindE (numicro_wait_trg_zero 100) (\<lambda>_.
            check_for_failure)))"

text \<open>
  \<open>for (unsigned int i = first; i <= last; i++)\<close>. The indices are natural numbers; an
  index outside the sector array ends the run with \<open>OUT_OF_BOUNDS\<close>, so \<open>i\<close> stays below the
  number of sectors (an \<open>unsigned int\<close>) and \<open>i++\<close> never wraps.
\<close>

function numicro_erase_loop ::
  "flash_bank \<Rightarrow> nat \<Rightarrow> nat \<Rightarrow> target \<Rightarrow> (error + unit) \<times> target" where
  "numicro_erase_loop bank i last' t =
     (if i \<le> last' then
        (if i < length (sectors bank) then
           (case numicro_erase_sector bank i t of
              (Inl e, t') \<Rightarrow> (Inl e, t')
            | (Inr _, t') \<Rightarrow> numicro_erase_loop bank (Suc i) last' t')
         else (Inl OUT_OF_BOUNDS, t))
      else (Inr (), t))"
  by pat_completeness auto
termination
  by (relation "measure (\<lambda>(bank, i, last', t). Suc last' - i)") auto

definition numicro_erase ::
  "flash_bank \<Rightarrow> nat \<Rightarrow> nat \<Rightarrow> target \<Rightarrow> (error + unit) \<times> flash_bank \<times> target" where
  "numicro_erase bank first last' t =
     (if state t \<noteq> TARGET_HALTED then (Inl ERROR_TARGET_NOT_HALTED, bank, t)
      else
        (case bindE numicro_init_isp (\<lambda>_.
              bindE (target_write_u32 NUMICRO_FLASH_ISPCMD ISPCMD_ERASE) (\<lambda>_.
                     numicro_erase_loop bank first last')) t of
           (retval, t') \<Rightarrow> (retval, bank, t')))"

section \<open>Write\<close>

text \<open>The body of the single-word loop of \<open>numicro_write\<close>, for the word at byte \<open>i\<close>.\<close>

definition numicro_write_word ::
  "flash_bank \<Rightarrow> u8 list \<Rightarrow> u32 \<Rightarrow> u32 \<Rightarrow> target \<Rightarrow> (error + unit) \<times> target" where
  "numicro_write_word bank buffer offset i =
     bindE (target_write_u32 NUMICRO_FLASH_ISPADR
              (ucast (bank_base bank + ucast offset + ucast i))) (\<lambda>_.
     bindE (target_write_memory NUMICRO_FLASH_ISPDAT 4 1 (drop (unat i) buffer)) (\<lambda>_.
     bindE (target_write_u32 NUMICRO_FLASH_ISPTRG ISPTRG_ISPGO) (\<lambda>_.
            numicro_wait_trg_zero 100)))"

text \<open>
  \<open>for (uint32_t i = 0; i < count; i += 4)\<close>: \<open>i += 4\<close> wraps around at \<open>2^32\<close>, so for a
  \<open>count\<close> that is no multiple of 4 the C loop need not end; \<open>None\<close> stands for that.
\<close>

partial_function (option) numicro_write_loop ::
  "flash_bank \<Rightarrow> u8 list \<Rightarrow> u32 \<Rightarrow> u32 \<Rightarrow> u32 \<Rightarrow> target \<Rightarrow> ((error + unit) \<times> target) option" where
  "numicro_write_loop bank buffer offset count i t =
     (if i < count then
        (case numicro_write_word bank buffer offset i t of
           (Inl e, t') \<Rightarrow> Some (Inl e, t')
         | (Inr _, t') \<Rightarrow> numicro_write_loop bank buffer offset count (i + 4) t')
      else Some (Inr (), t))"

declare numicro_write_loop.simps [code]

text \<open>
  In \<open>numicro_write\<close>, the value \<open>numicro_writeblock\<close> returned is compared with
  \<open>ERROR_TARGET_RESOURCE_NOT_AVAILABLE\<close> and then overwritten by the next assignment to
  \<open>retval\<close> (the read of the control register), whatever it was.
\<close>

definition numicro_write ::
  "flash_bank \<Rightarrow> u8 list \<Rightarrow> u32 \<Rightarrow> u32 \<Rightarrow> target
     \<Rightarrow> ((error + unit) \<times> flash_bank \<times> target) option" where
  "numicro_write bank buffer offset count t =
     (if state t \<noteq> TARGET_HALTED then Some (Inl ERROR_TARGET_NOT_HALTED, bank, t)
      else
        (case numicro_init_isp t of
           (Inl e, t1) \<Rightarrow> Some (Inl e, bank, t1)
         | (Inr _, t1) \<Rightarrow>
        (case target_write_u32 NUMICRO_FLASH_ISPCMD ISPCMD_WRITE t1 of
           (Inl e, t2) \<Rightarrow> Some (Inl e, bank, t2)
         | (Inr _, t2) \<Rightarrow>
        if offset mod 4 \<noteq> 0 then Some (Inl ASSERTION_FAILED, bank, t2)
        else if count mod 4 \<noteq> 0 then Some (Inl ASSERTION_FAILED, bank, t2)
        else
          (let words_remaining = count div 4
           in case numicro_writeblock bank buffer offset words_remaining t2 of
                None \<Rightarrow> None
              | Some (retval, t3) \<Rightarrow>
                  (case (if retval = Inl ERROR_TARGET_RESOURCE_NOT_AVAILABLE
                         then numicro_write_loop bank buffer offset count 0 t3
                         else Some (Inr (), t3)) of
                     None \<Rightarrow> None
                   | Some (Inl e, t4) \<Rightarrow> Some (Inl e, bank, t4)
                   | Some (Inr _, t4) \<Rightarrow>
                       (case check_for_failure t4 of
                          (retval', t5) \<Rightarrow> Some (retval', bank, t5)))))))"

section \<open>The part catalog and geometry resolution\<close>

definition NUMICRO_BANKS_GENERAL :: "u32 \<Rightarrow> u32 \<Rightarrow> u32 \<Rightarrow> u32 \<Rightarrow> numicro_flash_bank_type list" where
  "NUMICRO_BANKS_GENERAL aprom_size data_size ldrom_size config_size =
     [\<lparr>region_base = NUMICRO_APROM_BASE, region_size = aprom_size\<rparr>,
      \<lparr>region_base = NUMICRO_DATA_BASE, region_size = data_size\<rparr>,
      \<lparr>region_base = NUMICRO_LDROM_BASE, region_size = ldrom_size\<rparr>,
      \<lparr>region_base = NUMICRO_CONFIG_BASE, region_size = config_size\<rparr>]"

text \<open>One line of \<open>numicro_parts\<close>: name, identifier and the four region sizes.\<close>

definition part :: "string \<Rightarrow> u32 \<Rightarrow> u32 \<Rightarrow> u32 \<Rightarrow> u32 \<Rightarrow> u32 \<Rightarrow> numicro_cpu_type" where
  "part name pid aprom_size data_size ldrom_size config_size =
     \<lparr>partname = name, partid = pid, n_banks = 4,
      cpu_banks = NUMICRO_BANKS_GENERAL aprom_size data_size ldrom_size config_size\<rparr>"

definition numicro_parts :: "numicro_cpu_type list" where
  "numicro_parts = [
     part ''M052LAN'' 0x00005200 (8 * 1024) (4 * 1024) (4 * 1024) 4,
     part ''M054LAN'' 0x00005400 (16 * 1024) (4 * 1024) (4 * 1024) 4,
     part ''M058LAN'' 0x00005800 (32 * 1024) (4 * 1024) (4 * 1024) 4,
     part ''M0516LAN'' 0x00005A00 (64 * 1024) (4 * 1024) (4 * 1024) 4,
     part ''M052ZAN'' 0x00005203 (8 * 1024) (4 * 1024) (4 * 1024) 4,
     part ''M054ZAN'' 0x00005403 (16 * 1024) (4 * 1024) (4 * 1024) 4,
     part ''M058ZAN'' 0x00005803 (32 * 1024) (4 * 1024) (4 * 1024) 4,
     part ''M0516ZAN'' 0x00005A03 (64 * 1024) (4 * 1024) (4 * 1024) 4,
     part ''M052LBN'' 0x10005200 (8 * 1024) (4 * 1024) (4 * 1024) 4,
     part ''M054LBN'' 0x10005400 (16 * 1024) (4 * 1024) (4 * 1024) 4,
     part ''M058LBN'' 0x10005800 (32 * 1024) (4 * 1024) (4 * 1024) 4,
     part ''M0516LBN'' 0x10005A00 (64 * 1024) (4 * 1024) (4 * 1024) 4,
     part ''M052ZBN'' 0x10005203 (8 * 1024) (4 * 1024) (4 * 1024) 4,
     part ''M054ZBN'' 0x10005403 (16 * 1024) (4 * 1024) (4 * 1024) 4,
     part ''M058ZBN'' 0x10005803 (32 * 1024) (4 * 1024) (4 * 1024) 4,
     part ''M0516ZBN'' 0x10005A03 (64 * 1024) (4 * 1024) (4 * 1024) 4,
     part ''M0516LDN'' 0x20005A00 (64 * 1024) (4 * 1024) (4 * 1024) 4,
     part ''M0516ZDN'' 0x20005A03 (64 * 1024) (4 * 1024) (4 * 1024) 4,
     part ''M052LDN'' 0x20005200 (8 * 1024) (4 * 1024) (4 * 1024) 4,
     part ''M052ZDN'' 0x20005203 (8 * 1024) (4 * 1024) (4 * 1024) 4,
     part ''M054LDN'' 0x20005400 (16 * 1024) (4 * 1024) (4 * 1024) 4,
     part ''M054ZDN'' 0x20005403 (16 * 1024) (4 * 1024) (4 * 1024) 4,
     part ''M058LDN'' 0x20005800 (32 * 1024) (4 * 1024) (4 * 1024) 4,
     part ''M058ZDN'' 0x20005803 (32 * 1024) (4 * 1024) (4 * 1024) 4,
     part ''M0516LDE'' 0x30005A00 (64 * 1024) (4 * 1024) (4 * 1024) 4,
     part ''M0516ZDE'' 0x30005A03 (64 * 1024) (4 * 1024) (4 * 1024) 4,
     part ''M052LDE'' 0x30005200 (8 * 1024) (4 * 1024) (4 * 1024) 4,
     part ''M052ZDE'' 0x30005203 (8 * 1024) (4 * 1024) (4 * 1024) 4,
     part ''M054LDE'' 0x30005400 (16 * 1024) (4 * 1024) (4 * 1024) 4,
     part ''M054ZDE'' 0x30005403 (16 * 1024) (4 * 1024) (4 * 1024) 4,
     part ''M058LDE'' 0x30005800 (32 * 1024) (4 * 1024) (4 * 1024) 4,
     part ''M058ZDE'' 0x30005803 (32 * 1024) (4 * 1024) (4 * 1024) 4,
     part ''M0518LC2AE'' 0x10051803 (32 * 1024) (4 * 1024) (4 * 1024) 8,
     part ''M0518LD2AE'' 0x10051800 (64 * 1024) (4 * 1024) (4 * 1024) 8,
     part ''M0518SC2AE'' 0x10051813 (32 * 1024) (4 * 1024) (4 * 1024) 8,
     part ''M0518SD2AE'' 0x10051810 (64 * 1024) (4 * 1024) (4 * 1024) 8,
     part ''M0519LD3AE'' 0x00051902 (64 * 1024) (4 * 1024) (8 * 1024) 8,
     part ''M0519LE3AE'' 0x00051900 (128 * 1024) (0 * 1024) (8 * 1024) 8,
     part ''M0519SD3AE'' 0x00051922 (64 * 1024) (4 * 1024) (8 * 1024) 8,
     part ''M0519SE3AE'' 0x00051920 (128 * 1024) (0 * 1024) (8 * 1024) 8,
     part ''M0519VE3AE'' 0x00051930 (128 * 1024) (0 * 1024) (8 * 1024) 8,
     part ''M058SFAN'' 0x00005818 (32 * 1024) (4 * 1024) (4 * 1024) 8,
     part ''M058SLAN'' 0x00005810 (32 * 1024) (4 * 1024) (4 * 1024) 8,
     part ''M058SSAN'' 0x00005816 (32 * 1024) (4 * 1024) (4 * 1024) 8,
     part ''M058SZAN'' 0x00005813 (32 * 1024) (4 * 1024) (4 * 1024) 8,
     part ''MINI51LAN'' 0x00205100 (4 * 1024) (0 * 1024) (2 * 1024) 8,
     part ''MINI51TAN'' 0x00205104 (4 * 1024) (0 * 1024) (2 * 1024) 8,
     part ''MINI51ZAN'' 0x00205103 (4 * 1024) (0 * 1024) (2 * 1024) 8,
     part ''MINI52LAN'' 0x00205200 (8 * 1024) (0 * 1024) (2 * 1024) 8,
     part ''MINI52TAN'' 0x00205204 (8 * 1024) (0 * 1024) (2 * 1024) 8,
     part ''MINI52ZAN'' 0x00205203 (8 * 1024) (0 * 1024) (2 * 1024) 8,
     part ''MINI54LAN'' 0x00205400 (16 * 1024) (0 * 1024) (2 * 1024) 8,
     part ''MINI54TAN'' 0x00205404 (16 * 1024) (0 * 1024) (2 * 1024) 8,
     part ''MINI54ZAN'' 0x00205403 (16 * 1024) (0 * 1024) (2 * 1024) 8,
     part ''MINI51FDE'' 0x20205105 (4 * 1024) (0 * 1024) (2 * 1024) 8,
     part ''MINI51LDE'' 0x20205100 (4 * 1024) (0 * 1024) (2 * 1024) 8,
     part ''MINI51TDE'' 0x20205104 (4 * 1024) (0 * 1024) (2 * 1024) 8,
     part ''MINI51ZDE'' 0x20205103 (4 * 1024) (0 * 1024) (2 * 1024) 8,
     part ''MINI52FDE'' 0x20205205 (8 * 1024) (0 * 1024) (2 * 1024) 8,
     part ''MINI52LDE'' 0x20205200 (8 * 1024) (0 * 1024) (2 * 1024) 8,
     part ''MINI52TDE'' 0x20205204 (8 * 1024) (0 * 1024) (2 * 1024) 8,
     part ''MINI52ZDE'' 0x20205203 (8 * 1024) (0 * 1024) (2 * 1024) 8,
     part ''MINI54FDE'' 0x20205405 (16 * 1024) (0 * 1024) (2 * 1024) 8,
     part ''MINI54LDE'' 0x20205400 (16 * 1024) (0 * 1024) (2 * 1024) 8,
     part ''MINI54TDE'' 0x20205404 (16 * 1024) (0 * 1024) (2 * 1024) 8,
     part ''MINI54ZDE'' 0x20205403 (16 * 1024) (0 * 1024) (2 * 1024) 8,
     part ''MINI55LDE'' 0x00505500 (35 * 512) (0 * 1024) (2 * 1024) 8,
     part ''MINI55ZDE'' 0x00505503 (35 * 512) (0 * 1024) (2 * 1024) 8,
     part ''MINI58FDE'' 0x00A05805 (32 * 1024) (0 * 1024) (5 * 512) 8,
     part ''MINI58LDE'' 0x00A05800 (32 * 1024) (0 * 1024) (5 * 512) 8,
     part ''MINI58TDE'' 0x00A05804 (32 * 1024) (0 * 1024) (5 * 512) 8,
     part ''MINI58ZDE'' 0x00A05803 (32 * 1024) (0 * 1024) (5 * 512) 8,
     part ''NANO100LC2AN'' 0x00110025 (32 * 1024) (0 * 1024) (4 * 1024) 8,
     part ''NANO100LD2AN'' 0x00110019 (64 * 1024) (0 * 1024) (4 * 1024) 8,
     part ''NANO100LD3AN'' 0x00110018 (64 * 1024) (0 * 1024) (4 * 1024) 8,
     part ''NANO100SC2AN'' 0x00110023 (32 * 1024) (0 * 1024) (4 * 1024) 8,
     part ''NANO100SD2AN'' 0x00110016 (64 * 1024) (0 * 1024) (4 * 1024) 8,
     part ''NANO100SD3AN'' 0x00110015 (64 * 1024) (0 * 1024) (4 * 1024) 8,
     part ''NANO100VD2AN'' 0x00110013 (64 * 1024) (0 * 1024) (4 * 1024) 8,
     part ''NANO100VD3AN'' 0x00110012 (64 * 1024) (0 * 1024) (4 * 1024) 8,
     part ''NANO100ZC2AN'' 0x00110029 (32 * 1024) (0 * 1024) (4 * 1024) 8,
     part ''NANO100ZD2AN'' 0x00110028 (64 * 1024) (0 * 1024) (4 * 1024) 8,
     part ''NANO100ZD3AN'' 0x00110027 (64 * 1024) (0 * 1024) (4 * 1024) 8,
     part ''NANO120LC2AN'' 0x00112025 (32 * 1024) (0 * 1024) (4 * 1024) 8,
     part ''NANO120LD2AN'' 0x00112019 (64 * 1024) (0 * 1024) (4 * 1024) 8,
     part ''NANO120LD3AN'' 0x00112018 (64 * 1024) (0 * 1024) (4 * 1024) 8,
     part ''NANO120SC2AN'' 0x00112023 (32 * 1024) (0 * 1024) (4 * 1024) 8,
     part ''NANO120SD2AN'' 0x00112016 (64 * 1024) (0 * 1024) (4 * 1024) 8,
     part ''NANO120SD3AN'' 0x00112015 (64 * 1024) (0 * 1024) (4 * 1024) 8,
     part ''NANO120VD2AN'' 0x00112013 (64 * 1024) (0 * 1024) (4 * 1024) 8,
     part ''NANO120VD3AN'' 0x00112012 (64 * 1024) (0 * 1024) (4 * 1024) 8,
     part ''NANO120ZC2AN'' 0x00112029 (32 * 1024) (0 * 1024) (4 * 1024) 8,
     part ''NANO120ZD2AN'' 0x00112028 (64 * 1024) (0 * 1024) (4 * 1024) 8,
     part ''NANO120ZD3AN'' 0x00112027 (64 * 1024) (0 * 1024) (4 * 1024) 8,
     part ''NANO100KC2BN'' 0x00110040 (64 * 1024) (0 * 1024) (4 * 1024) 8,
     part ''NANO100KD2BN'' 0x00110039 (64 * 1024) (0 * 1024) (4 * 1024) 8,
     part ''NANO100KD3BN'' 0x00110038 (64 * 1024) (0 * 1024) (4 * 1024) 8,
     part ''NANO100KE3BN'' 0x00110030 (123 * 1024) (0 * 1024) (4 * 1024) 8,
     part ''NANO100LC2BN'' 0x00110043 (32 * 1024) (0 * 1024) (4 * 1024) 8,
     part ''NANO100LD2BN'' 0x0011003F (64 * 1024) (0 * 1024) (4 * 1024) 8,
     part ''NANO100LD3BN'' 0x0011003E (64 * 1024) (0 * 1024) (4 * 1024) 8,
     part ''NANO100LE3BN'' 0x00110036 (123 * 1024) (0 * 1024) (4 * 1024) 8,
     part ''NANO100ND2BN'' 0x00110046 (64 * 1024) (0 * 1024) (4 * 1024) 8,
     part ''NANO100ND3BN'' 0x00110045 (64 * 1024) (0 * 1024) (4 * 1024) 8,
     part ''NANO100NE3BN'' 0x00110044 (123 * 1024) (0 * 1024) (4 * 1024) 8,
     part ''NANO100SC2BN'' 0x00110042 (32 * 1024) (0 * 1024) (4 * 1024) 8,
     part ''NANO100SD2BN'' 0x0011003D (64 * 1024) (0 * 1024) (4 * 1024) 8,
     part ''NANO100SD3BN'' 0x0011003C (64 * 1024) (0 * 1024) (4 * 1024) 8,
     part ''NANO100SE3BN'' 0x00110034 (123 * 1024) (0 * 1024) (4 * 1024) 8,
     part ''NANO110KC2BN'' 0x00111040 (32 * 1024) (0 * 1024) (4 * 1024) 8,
     part ''NANO110KD2BN'' 0x00111039 (64 * 1024) (0 * 1024) (4 * 1024) 8,
     part ''NANO110KD3BN'' 0x00111038 (64 * 1024) (0 * 1024) (4 * 1024) 8,
     part ''NANO110KE3BN'' 0x00111030 (123 * 1024) (0 * 1024) (4 * 1024) 8,
     part ''NANO110RC2BN'' 0x00111043 (32 * 1024) (0 * 1024) (4 * 1024) 8,
     part ''NANO110RD2BN'' 0x00111044 (64 * 1024) (0 * 1024) (4 * 1024) 8,
     part ''NANO110RD3BN'' 0x00111045 (64 * 1024) (0 * 1024) (4 * 1024) 8,
     part ''NANO110SC2BN'' 0x00111042 (32 * 1024) (0 * 1024) (4 * 1024) 8,
     part ''NANO110SD2BN'' 0x0011103D (64 * 1024) (0 * 1024) (4 * 1024) 8,
     part ''NANO110SD3BN'' 0x0011103C (64 * 1024) (0 * 1024) (4 * 1024) 8,
     part ''NANO110SE3BN'' 0x00111034 (123 * 1024) (0 * 1024) (4 * 1024) 8,
     part ''NANO120KC2BN'' 0x00112040 (32 * 1024) (0 * 1024) (4 * 1024) 8,
     part ''NANO120KD2BN'' 0x00112039 (64 * 1024) (0 * 1024) (4 * 1024) 8,
     part ''NANO120KD3BN'' 0x00112038 (64 * 1024) (0 * 1024) (4 * 1024) 8,
     part ''NANO120KE3BN'' 0x00112030 (123 * 1024) (0 * 1024) (4 * 1024) 8,
     part ''NANO120LC2BN'' 0x00112043 (32 * 1024) (0 * 1024) (4 * 1024) 8,
     part ''NANO120LD2BN'' 0x0011203F (64 * 1024) (0 * 1024) (4 * 1024) 8,
     part ''NANO120LD3BN'' 0x0011203E (64 * 1024) (0 * 1024) (4 * 1024) 8,
     part ''NANO120LE3BN'' 0x00112036 (123 * 1024) (0 * 1024) (4 * 1024) 8,
     part ''NANO120SC2BN'' 0x00112042 (32 * 1024) (0 * 1024) (4 * 1024) 8,
     part ''NANO120SD2BN'' 0x0011203D (64 * 1024) (0 * 1024) (4 * 1024) 8,
     part ''NANO120SD3BN'' 0x0011203C (64 * 1024) (0 * 1024) (4 * 1024) 8,
     part ''NANO120SE3BN'' 0x00112034 (123 * 1024) (0 * 1024) (4 * 1024) 8,
     part ''NANO130KC2BN'' 0x00113040 (32 * 1024) (0 * 1024) (4 * 1024) 8,
     part ''NANO130KD2BN'' 0x00113039 (64 * 1024) (0 * 1024) (4 * 1024) 8,
     part ''NANO130KD3BN'' 0x00113038 (64 * 1024) (0 * 1024) (4 * 1024) 8,
     part ''NANO130KE3BN'' 0x00113030 (123 * 1024) (0 * 1024) (4 * 1024) 8,
     part ''NANO130SC2BN'' 0x00113042 (32 * 1024) (0 * 1024) (4 * 1024) 8,
     part ''NANO130SD2BN'' 0x0011303D (64 * 1024) (0 * 1024) (4 * 1024) 8,
     part ''NANO130SD3BN'' 0x0011303C (64 * 1024) (0 * 1024) (4 * 1024) 8,
     part ''NANO130SE3BN'' 0x00113034 (123 * 1024) (0 * 1024) (4 * 1024) 8,
     part ''NANO103SD3AE'' 0x00110301 (64 * 1024) (0 * 1024) (4 * 1024) 8,
     part ''NANO103LD3AE'' 0x00110304 (64 * 1024) (0 * 1024) (4 * 1024) 8,
     part ''NANO103ZD3AE'' 0x00110307 (64 * 1024) (0 * 1024) (4 * 1024) 8,
     part ''NANO102LB1AN'' 0x00110206 (16 * 1024) (0 * 1024) (4 * 1024) 8,
     part ''NANO102LC2AN'' 0x00110208 (32 * 1024) (0 * 1024) (4 * 1024) 8,
     part ''NANO102SC2AN'' 0x00110212 (32 * 1024) (0 * 1024) (4 * 1024) 8,
     part ''NANO102ZB1AN'' 0x00110202 (16 * 1024) (0 * 1024) (4 * 1024) 8,
     part ''NANO102ZC2AN'' 0x00110204 (32 * 1024) (0 * 1024) (4 * 1024) 8,
     part ''NANO112LB1AN'' 0x00111202 (16 * 1024) (0 * 1024) (4 * 1024) 8,
     part ''NANO112LC2AN'' 0x00111204 (32 * 1024) (0 * 1024) (4 * 1024) 8,
     part ''NANO112RB1AN'' 0x00111210 (16 * 1024) (0 * 1024) (4 * 1024) 8,
     part ''NANO112RC2AN'' 0x00111212 (32 * 1024) (0 * 1024) (4 * 1024) 8,
     part ''NANO112SB1AN'' 0x00111206 (16 * 1024) (0 * 1024) (4 * 1024) 8,
     part ''NANO112SC2AN'' 0x00111208 (32 * 1024) (0 * 1024) (4 * 1024) 8,
     part ''NANO112VC2AN'' 0x00111216 (32 * 1024) (0 * 1024) (4 * 1024) 8,
     part ''NUC029LAN'' 0x00295A00 (64 * 1024) (4 * 1024) (4 * 1024) 4,
     part ''NUC029TAN'' 0x00295804 (32 * 1024) (4 * 1024) (4 * 1024) 4,
     part ''NUC029FAE'' 0x00295415 (16 * 1024) (0 * 1024) (2 * 1024) 8,
     part ''NUC100LD3AN'' 0x00010003 (64 * 1024) (4 * 1024) (4 * 1024) 8,
     part ''NUC100LE3AN'' 0x00010000 (128 * 1024) (0 * 1024) (4 * 1024) 8,
     part ''NUC100RD3AN'' 0x00010012 (64 * 1024) (4 * 1024) (4 * 1024) 8,
     part ''NUC100RE3AN'' 0x00010009 (128 * 1024) (0 * 1024) (4 * 1024) 8,
     part ''NUC100VD2AN'' 0x00010022 (64 * 1024) (4 * 1024) (4 * 1024) 8,
     part ''NUC100VD3AN'' 0x00010021 (64 * 1024) (4 * 1024) (4 * 1024) 8,
     part ''NUC100VE3AN'' 0x00100018 (128 * 1024) (0 * 1024) (4 * 1024) 8,
     part ''NUC120LD3AN'' 0x00012003 (64 * 1024) (4 * 1024) (4 * 1024) 8,
     part ''NUC120LE3AN'' 0x00120000 (128 * 1024) (0 * 1024) (4 * 1024) 8,
     part ''NUC120RD3AN'' 0x00012012 (64 * 1024) (4 * 1024) (4 * 1024) 8,
     part ''NUC120RE3AN'' 0x00012009 (128 * 1024) (0 * 1024) (4 * 1024) 8,
     part ''NUC120VD2AN'' 0x00012022 (64 * 1024) (4 * 1024) (4 * 1024) 8,
     part ''NUC120VD3AN'' 0x00012021 (64 * 1024) (4 * 1024) (4 * 1024) 8,
     part ''NUC120VE3AN'' 0x00012018 (128 * 1024) (0 * 1024) (4 * 1024) 8,
     part ''NUC100LC1BN'' 0x10010008 (32 * 1024) (4 * 1024) (4 * 1024) 8,
     part ''NUC100LD1BN'' 0x10010005 (64 * 1024) (4 * 1024) (4 * 1024) 8,
     part ''NUC100LD2BN'' 0x10010004 (64 * 1024) (4 * 1024) (4 * 1024) 8,
     part ''NUC100RC1BN'' 0x10010017 (32 * 1024) (4 * 1024) (4 * 1024) 8,
     part ''NUC100RD1BN'' 0x10010014 (64 * 1024) (4 * 1024) (4 * 1024) 8,
     part ''NUC100RD2BN'' 0x10010013 (64 * 1024) (4 * 1024) (4 * 1024) 8,
     part ''NUC120LC1BN'' 0x10012008 (32 * 1024) (4 * 1024) (4 * 1024) 8,
     part ''NUC120LD1BN'' 0x10012005 (64 * 1024) (4 * 1024) (4 * 1024) 8,
     part ''NUC120LD2BN'' 0x10012004 (64 * 1024) (4 * 1024) (4 * 1024) 8,
     part ''NUC120RC1BN'' 0x10012017 (32 * 1024) (4 * 1024) (4 * 1024) 8,
     part ''NUC120RD1BN'' 0x10012014 (64 * 1024) (4 * 1024) (4 * 1024) 8,
     part ''NUC120RD2BN'' 0x10012013 (64 * 1024) (4 * 1024) (4 * 1024) 8,
     part ''NUC130LC1CN'' 0x20013008 (32 * 1024) (4 * 1024) (4 * 1024) 8,
     part ''NUC130LD2CN'' 0x20013004 (64 * 1024) (4 * 1024) (4 * 1024) 8,
     part ''NUC130LE3CN'' 0x20013000 (128 * 1024) (0 * 1024) (4 * 1024) 8,
     part ''NUC130RC1CN'' 0x20013017 (32 * 1024) (4 * 1024) (4 * 1024) 8,
     part ''NUC130RD2CN'' 0x20013013 (64 * 1024) (4 * 1024) (4 * 1024) 8,
     part ''NUC130RE3CN'' 0x20013009 (128 * 1024) (0 * 1024) (4 * 1024) 8,
     part ''NUC130VE3CN'' 0x20013018 (128 * 1024) (0 * 1024) (4 * 1024) 8,
     part ''NUC140LC1CN'' 0x20014008 (32 * 1024) (4 * 1024) (4 * 1024) 8,
     part ''NUC140LD2CN'' 0x20014004 (64 * 1024) (4 * 1024) (4 * 1024) 8,
     part ''NUC140LE3CN'' 0x20014000 (128 * 1024) (0 * 1024) (4 * 1024) 8,
     part ''NUC140RC1CN'' 0x20014017 (32 * 1024) (4 * 1024) (4 * 1024) 8,
     part ''NUC140RD2CN'' 0x20014013 (64 * 1024) (4 * 1024) (4 * 1024) 8,
     part ''NUC140RE3CN'' 0x20014009 (128 * 1024) (0 * 1024) (4 * 1024) 8,
     part ''NUC140VE3CN'' 0x20014018 (128 * 1024) (0 * 1024) (4 * 1024) 8,
     part ''NUC100LC1DN'' 0x30010008 (32 * 1024) (4 * 1024) (4 * 1024) 8,
     part ''NUC100LD1DN'' 0x30010005 (64 * 1024) (4 * 1024) (4 * 1024) 8,
     part ''NUC100LD2DN'' 0x30010004 (64 * 1024) (4 * 1024) (4 * 1024) 8,
     part ''NUC100LD3DN'' 0x30010003 (64 * 1024) (4 * 1024) (4 * 1024) 8,
     part ''NUC100LE3DN'' 0x30010000 (128 * 1024) (0 * 1024) (4 * 1024) 8,
     part ''NUC100RC1DN'' 0x30010017 (32 * 1024) (4 * 1024) (4 * 1024) 8,
     part ''NUC100RD1DN'' 0x30010014 (64 * 1024) (4 * 1024) (4 * 1024) 8,
     part ''NUC100RD2DN'' 0x30010013 (64 * 1024) (4 * 1024) (4 * 1024) 8,
     part ''NUC100RD3DN'' 0x30010012 (64 * 1024) (4 * 1024) (4 * 1024) 8,
     part ''NUC100RE3DN'' 0x30010009 (128 * 1024) (0 * 1024) (4 * 1024) 8,
     part ''NUC100VD2DN'' 0x30010022 (64 * 1024) (4 * 1024) (4 * 1024) 8,
     part ''NUC100VD3DN'' 0x30010021 (64 * 1024) (4 * 1024) (4 * 1024) 8,
     part ''NUC100VE3DN'' 0x30010018 (128 * 1024) (0 * 1024) (4 * 1024) 8,
     part ''NUC120LC1DN'' 0x30012008 (32 * 1024) (4 * 1024) (4 * 1024) 8,
     part ''NUC120LD1DN'' 0x30012005 (64 * 1024) (4 * 1024) (4 * 1024) 8,
     part ''NUC120LD2DN'' 0x30012004 (64 * 1024) (4 * 1024) (4 * 1024) 8,
     part ''NUC120LD3DN'' 0x30012003 (64 * 1024) (4 * 1024) (4 * 1024) 8,
     part ''NUC120LE3DN'' 0x30012000 (128 * 1024) (0 * 1024) (4 * 1024) 8,
     part ''NUC120RC1DN'' 0x30012035 (32 * 1024) (4 * 1024) (4 * 1024) 8,
     part ''NUC120RD1DN'' 0x30012032 (64 * 1024) (4 * 1024) (4 * 1024) 8,
     part ''NUC120RD2DN'' 0x30012031 (64 * 1024) (4 * 1024) (4 * 1024) 8,
     part ''NUC120RD3DN'' 0x30012030 (64 * 1024) (4 * 1024) (4 * 1024) 8,
     part ''NUC120RE3DN'' 0x30012027 (128 * 1024) (0 * 1024) (4 * 1024) 8,
     part ''NUC120VD2DN'' 0x30012022 (64 * 1024) (4 * 1024) (4 * 1024) 8,
     part ''NUC120VD3DN'' 0x30012021 (64 * 1024) (4 * 1024) (4 * 1024) 8,
     part ''NUC120VE3DN'' 0x30012018 (128 * 1024) (0 * 1024) (4 * 1024) 8,
     part ''NUC121SC2AE'' 0x00012105 (32 * 1024) (0 * 1024) (9 * 512) 8,
     part ''NUC121LC2AE'' 0x00012125 (32 * 1024) (0 * 1024) (9 * 512) 8,
     part ''NUC121ZC2AE'' 0x00012145 (32 * 1024) (0 * 1024) (9 * 512) 8,
     part ''NUC125SC2AE'' 0x00012505 (32 * 1024) (0 * 1024) (9 * 512) 8,
     part ''NUC125LC2AE'' 0x00012525 (32 * 1024) (0 * 1024) (9 * 512) 8,
     part ''NUC125ZC2AE'' 0x00012545 (32 * 1024) (0 * 1024) (9 * 512) 8,
     part ''NUC122LC1AN'' 0x00012208 (32 * 1024) (4 * 1024) (4 * 1024) 8,
     part ''NUC122LD2AN'' 0x00012204 (64 * 1024) (4 * 1024) (4 * 1024) 8,
     part ''NUC122SC1AN'' 0x00012226 (32 * 1024) (4 * 1024) (4 * 1024) 8,
     part ''NUC122SD2AN'' 0x00012222 (64 * 1024) (4 * 1024) (4 * 1024) 8,
     part ''NUC122ZC1AN'' 0x00012235 (32 * 1024) (4 * 1024) (4 * 1024) 8,
     part ''NUC122ZD2AN'' 0x00012231 (64 * 1024) (4 * 1024) (4 * 1024) 8,
     part ''NUC123LC2AN1'' 0x00012325 (32 * 1024) (4 * 1024) (4 * 1024) 8,
     part ''NUC123LD4AN0'' 0x00012335 (64 * 1024) (4 * 1024) (4 * 1024) 8,
     part ''NUC123SC2AN1'' 0x00012305 (32 * 1024) (4 * 1024) (4 * 1024) 8,
     part ''NUC123SD4AN0'' 0x00012315 (64 * 1024) (4 * 1024) (4 * 1024) 8,
     part ''NUC123ZC2AN1'' 0x00012345 (32 * 1024) (4 * 1024) (4 * 1024) 8,
     part ''NUC123ZD4AN0'' 0x00012355 (64 * 1024) (4 * 1024) (4 * 1024) 8,
     part ''NUC123LC2AE1'' 0x10012325 (32 * 1024) (4 * 1024) (4 * 1024) 8,
     part ''NUC123LD4AE0'' 0x10012335 (64 * 1024) (4 * 1024) (4 * 1024) 8,
     part ''NUC123SC2AE1'' 0x10012305 (32 * 1024) (4 * 1024) (4 * 1024) 8,
     part ''NUC123SD4AE0'' 0x10012315 (64 * 1024) (4 * 1024) (4 * 1024) 8,
     part ''NUC123ZC2AE1'' 0x10012345 (32 * 1024) (4 * 1024) (4 * 1024) 8,
     part ''NUC123ZD4AE0'' 0x10012355 (64 * 1024) (4 * 1024) (4 * 1024) 8,
     part ''NUC131LC2AE'' 0x10013103 (32 * 1024) (4 * 1024) (4 * 1024) 8,
     part ''NUC131LD2AE'' 0x10013100 (64 * 1024) (4 * 1024) (4 * 1024) 8,
     part ''NUC131SC2AE'' 0x10013113 (32 * 1024) (4 * 1024) (4 * 1024) 8,
     part ''NUC131SD2AE'' 0x10013110 (64 * 1024) (4 * 1024) (4 * 1024) 8,
     part ''NUC200LC2AN'' 0x00020007 (32 * 1024) (4 * 1024) (4 * 1024) 8,
     part ''NUC200LD2AN'' 0x00020004 (64 * 1024) (4 * 1024) (4 * 1024) 8,
     part ''NUC200LE3AN'' 0x00020000 (128 * 1024) (0 * 1024) (4 * 1024) 8,
     part ''NUC200SC2AN'' 0x00020034 (32 * 1024) (4 * 1024) (4 * 1024) 8,
     part ''NUC200SD2AN'' 0x00020031 (64 * 1024) (4 * 1024) (4 * 1024) 8,
     part ''NUC200SE3AN'' 0x00020027 (128 * 1024) (0 * 1024) (4 * 1024) 8,
     part ''NUC200VE3AN'' 0x00020018 (128 * 1024) (0 * 1024) (4 * 1024) 8,
     part ''NUC220LC2AN'' 0x00022007 (32 * 1024) (4 * 1024) (4 * 1024) 8,
     part ''NUC220LD2AN'' 0x00022004 (64 * 1024) (4 * 1024) (4 * 1024) 8,
     part ''NUC220LE3AN'' 0x00022000 (128 * 1024) (0 * 1024) (4 * 1024) 8,
     part ''NUC220SC2AN'' 0x00022034 (32 * 1024) (4 * 1024) (4 * 1024) 8,
     part ''NUC220SD2AN'' 0x00022031 (64 * 1024) (4 * 1024) (4 * 1024) 8,
     part ''NUC220SE3AN'' 0x00022027 (128 * 1024) (0 * 1024) (4 * 1024) 8,
     part ''NUC220VE3AN'' 0x00022018 (128 * 1024) (0 * 1024) (4 * 1024) 8,
     part ''NUC230LC2AE'' 0x10023007 (32 * 1024) (4 * 1024) (8 * 1024) 8,
     part ''NUC230LD2AE'' 0x10023004 (64 * 1024) (4 * 1024) (8 * 1024) 8,
     part ''NUC230LE3AE'' 0x10023000 (128 * 1024) (0 * 1024) (8 * 1024) 8,
     part ''NUC230SC2AE'' 0x10023034 (32 * 1024) (4 * 1024) (8 * 1024) 8,
     part ''NUC230SD2AE'' 0x10023031 (64 * 1024) (4 * 1024) (8 * 1024) 8,
     part ''NUC230SE3AE'' 0x10023027 (128 * 1024) (0 * 1024) (8 * 1024) 8,
     part ''NUC230VE3AE'' 0x10023018 (128 * 1024) (0 * 1024) (8 * 1024) 8,
     part ''NUC240LC2AE'' 0x10024007 (32 * 1024) (4 * 1024) (8 * 1024) 8,
     part ''NUC240LD2AE'' 0x10024004 (64 * 1024) (4 * 1024) (8 * 1024) 8,
     part ''NUC240LE3AE'' 0x10024000 (128 * 1024) (0 * 1024) (8 * 1024) 8,
     part ''NUC240SC2AE'' 0x10024034 (32 * 1024) (4 * 1024) (8 * 1024) 8,
     part ''NUC240SD2AE'' 0x10024031 (64 * 1024) (4 * 1024) (8 * 1024) 8,
     part ''NUC240SE3AE'' 0x10024027 (128 * 1024) (0 * 1024) (8 * 1024) 8,
     part ''NUC240VE3AE'' 0x10024018 (128 * 1024) (0 * 1024) (8 * 1024) 8,
     part ''UNKNOWN'' 0x00000000 (128 * 1024) (0 * 1024) (16 * 1024) 8]"

definition numicro_get_cpu_type :: "target \<Rightarrow> (error + numicro_cpu_type) \<times> target" where
  "numicro_get_cpu_type t =
     (case target_read_u32 NUMICRO_SYS_BASE t of
        (Inl _, t') \<Rightarrow> (Inl ERROR_FLASH_OPERATION_FAILED, t')
      | (Inr part_id, t') \<Rightarrow>
          (case find (\<lambda>p. part_id = partid p) numicro_parts of
             Some p \<Rightarrow> (Inr p, t')
           | None \<Rightarrow> (Inl ERROR_FAIL, t')))"

definition numicro_get_flash_size :: "flash_bank \<Rightarrow> numicro_cpu_type \<Rightarrow> error + u32" where
  "numicro_get_flash_size bank cpu =
     (case find (\<lambda>b. bank_base bank = ucast (region_base b)) (take (n_banks cpu) (cpu_banks cpu)) of
        Some b \<Rightarrow> Inr (region_size b)
      | None \<Rightarrow> Inl ERROR_FLASH_OPERATION_FAILED)"

definition numicro_probe ::
  "flash_bank \<Rightarrow> target \<Rightarrow> (error + unit) \<times> flash_bank \<times> target" where
  "numicro_probe bank t =
     (case numicro_get_cpu_type t of
        (Inl _, t') \<Rightarrow> (Inl ERROR_FLASH_OPERATION_FAILED, bank, t')
      | (Inr cpu, t') \<Rightarrow>
          (case numicro_get_flash_size bank cpu of
             Inl _ \<Rightarrow> (Inl ERROR_FLASH_OPERATION_FAILED, bank, t')
           | Inr flash_size \<Rightarrow>
               (let num_pages = unat (flash_size div NUMICRO_PAGESIZE)
                in (Inr (),
                    bank\<lparr>bank_size := flash_size,
                         sectors :=
                           map (\<lambda>i. \<lparr>sector_offset = of_nat i * NUMICRO_PAGESIZE,
                                     sector_size = NUMICRO_PAGESIZE,
                                     is_erased = - 1, is_protected = 0\<rparr>) [0..<num_pages],
                         driver_priv := \<lparr>probed = True, priv_cpu = Some cpu\<rparr>\<rparr>,
                    t'))))"

definition numicro_auto_probe ::
  "flash_bank \<Rightarrow> target \<Rightarrow> (error + unit) \<times> flash_bank \<times> target" where
  "numicro_auto_probe bank t =
     (if probed (driver_priv bank) then (Inr (), bank, t) else numicro_probe bank t)"

section \<open>The ISP commands\<close>

text \<open>
  The handlers take the command's arguments as strings; \<open>COMMAND_PARSE_NUMBER\<close>, a macro
  of the command layer, is the parameter \<open>parse_u32\<close>.
\<close>

definition numicro_handle_read_isp_command ::
  "(string \<Rightarrow> error + u32) \<Rightarrow> string list \<Rightarrow> target \<Rightarrow> (error + unit) \<times> target" where
  "numicro_handle_read_isp_command parse_u32 argv t =
     (if length argv \<noteq> 1 then (Inl ERROR_COMMAND_SYNTAX_ERROR, t)
      else
        (case parse_u32 (argv ! 0) of
           Inl e \<Rightarrow> (Inl e, t)
         | Inr addr \<Rightarrow>
             bindE numicro_init_isp (\<lambda>_.
             bindE (numicro_fmc_cmd ISPCMD_READ addr 0) (\<lambda>ispdat.
                    returnE ())) t))"

definition numicro_handle_write_isp_command ::
  "(string \<Rightarrow> error + u32) \<Rightarrow> string list \<Rightarrow> target \<Rightarrow> (error + unit) \<times> target" where
  "numicro_handle_write_isp_command parse_u32 argv t =
     (if length argv \<noteq> 2 then (Inl ERROR_COMMAND_SYNTAX_ERROR, t)
      else
        (case parse_u32 (argv ! 0) of
           Inl e \<Rightarrow> (Inl e, t)
         | Inr addr \<Rightarrow>
             (case parse_u32 (argv ! 1) of
                Inl e \<Rightarrow> (Inl e, t)
              | Inr ispdat \<Rightarrow>
                  bindE numicro_init_isp (\<lambda>_.
                  bindE (numicro_fmc_cmd ISPCMD_WRITE addr ispdat) (\<lambda>rdat.
                         returnE ())) t)))"

definition numicro_handle_chip_erase_command ::
  "string list \<Rightarrow> target \<Rightarrow> (error + unit) \<times> target" where
  "numicro_handle_chip_erase_command argv t =
     (if length argv \<noteq> 0 then (Inl ERROR_COMMAND_SYNTAX_ERROR, t)
      else
        bindE numicro_init_isp (\<lambda>_.
        bindE (numicro_fmc_cmd ISPCMD_CHIPERASE 0 0) (\<lambda>rdat.
               returnE ())) t)"

section \<open>Vocabulary of the statements\<close>

text \<open>
  The requests of \<open>k\<close> polls of the trigger register that found the controller busy, each
  followed by the pause of 1 ms.
\<close>

definition poll_events :: "nat \<Rightarrow> event list" where
  "poll_events k = concat (replicate k [ReadU32 NUMICRO_FLASH_ISPTRG, BusySleep 1])"

definition go_set :: "error + u32 \<Rightarrow> bool" where
  "go_set r = (case r of Inl e \<Rightarrow> False | Inr status \<Rightarrow> status AND ISPTRG_ISPGO \<noteq> 0)"

definition go_clear :: "error + u32 \<Rightarrow> bool" where
  "go_clear r = (case r of Inl e \<Rightarrow> False | Inr status \<Rightarrow> status AND ISPTRG_ISPGO = 0)"

text \<open>The four register writes that start a command, in the order of \<open>numicro_fmc_cmd\<close>.\<close>

definition fmc_cmd_writes :: "u32 \<Rightarrow> u32 \<Rightarrow> u32 \<Rightarrow> event list" where
  "fmc_cmd_writes cmd addr wdata =
     [WriteU32 NUMICRO_FLASH_ISPCMD cmd, WriteU32 NUMICRO_FLASH_ISPDAT wdata,
      WriteU32 NUMICRO_FLASH_ISPADR addr, WriteU32 NUMICRO_FLASH_ISPTRG ISPTRG_ISPGO]"

text \<open>The flag \<open>numicro_protect_check\<close> derives from the first configuration word.\<close>

definition lock_flag :: "u32 \<Rightarrow> int" where
  "lock_flag config0 = (if config0 AND CONFIG0_LOCK_MASK = 0 then 1 else 0)"

text \<open>The sector array \<open>numicro_probe\<close> builds for a region of \<open>flash_size\<close> bytes.\<close>

definition probed_sectors :: "u32 \<Rightarrow> flash_sector list" where
  "probed_sectors flash_size =
     map (\<lambda>i. \<lparr>sector_offset = of_nat i * 512, sector_size = 512,
                is_erased = - 1, is_protected = 0\<rparr>) [0..<unat flash_size div 512]"

text \<open>
  Writes to the command, address and trigger registers, and what \<open>numicro_erase\<close> asks for
  one sector: its writes to those registers, and all its requests when the control register
  reads \<open>status\<close> and the trigger register reads 0 at the first poll.
\<close>

definition isp_command_write :: "event \<Rightarrow> bool" where
  "isp_command_write ev =
     (case ev of
        WriteU32 a v \<Rightarrow> a = NUMICRO_FLASH_ISPCMD \<or> a = NUMICRO_FLASH_ISPADR \<or> a = NUMICRO_FLASH_ISPTRG
      | _ \<Rightarrow> False)"

definition sector_address :: "flash_bank \<Rightarrow> nat \<Rightarrow> u32" where
  "sector_address bank i = ucast (bank_base bank + ucast (sector_offset (sectors bank ! i)))"

definition erase_sector_writes :: "flash_bank \<Rightarrow> nat \<Rightarrow> event list" where
  "erase_sector_writes bank i =
     [WriteU32 NUMICRO_FLASH_ISPADR (sector_address bank i),
      WriteU32 NUMICRO_FLASH_ISPTRG ISPTRG_ISPGO]"

definition erase_sector_events :: "flash_bank \<Rightarrow> u32 \<Rightarrow> nat \<Rightarrow> event list" where
  "erase_sector_events bank status i =
     [WriteU32 NUMICRO_FLASH_ISPADR (sector_address bank i),
      WriteU32 NUMICRO_FLASH_ISPTRG ISPTRG_ISPGO,
      ReadU32 NUMICRO_FLASH_ISPTRG,
      ReadU32 NUMICRO_FLASH_ISPCON]
     @ (if status AND ISPCON_ISPFF \<noteq> 0
        then [WriteU32 NUMICRO_FLASH_ISPCON (status OR ISPCON_ISPFF)] else [])"

text \<open>
  The answers of the host of \<open>t\<close> to the polls of the trigger register that follow the
  trace \<open>tr\<close>: not 0 at each of the first \<open>k\<close> polls (each followed by the pause of 1 ms), and
  0 at the next one.
\<close>

definition trigger_zero_after :: "target \<Rightarrow> event list \<Rightarrow> nat \<Rightarrow> bool" where
  "trigger_zero_after t tr k =
     ((\<forall>m<k. \<exists>v. v \<noteq> 0 \<and> host t (tr @ poll_events m) (ReadU32 NUMICRO_FLASH_ISPTRG) = Inr v)
      \<and> host t (tr @ poll_events k) (ReadU32 NUMICRO_FLASH_ISPTRG) = Inr 0)"

text \<open>
  All the requests of \<open>numicro_erase\<close> for sector \<open>i\<close> when the trigger register is found
  busy \<open>k\<close> times and the control register then reads \<open>status\<close>: address, GO, the \<open>k\<close> busy
  polls, the poll that reads 0, the read of the control register and, when ISPFF is set,
  the write that clears it.
\<close>

definition erase_sector_run :: "flash_bank \<Rightarrow> nat \<Rightarrow> nat \<Rightarrow> u32 \<Rightarrow> event list" where
  "erase_sector_run bank i k status =
     erase_sector_writes bank i @ poll_events k
     @ [ReadU32 NUMICRO_FLASH_ISPTRG, ReadU32 NUMICRO_FLASH_ISPCON]
     @ (if status AND ISPCON_ISPFF \<noteq> 0
        then [WriteU32 NUMICRO_FLASH_ISPCON (status OR ISPCON_ISPFF)] else [])"

text \<open>
  The step from \<open>u\<close> to \<open>u'\<close> is the erase of sector \<open>i\<close>: after the address and GO
  writes the host answers at most 100 polls with busy and the next with 0, then answers the
  read of the control register, and \<open>u'\<close> is \<open>u\<close> with exactly these requests added to the
  trace.
\<close>

definition sector_erased :: "flash_bank \<Rightarrow> nat \<Rightarrow> target \<Rightarrow> target \<Rightarrow> bool" where
  "sector_erased bank i u u' =
     (\<exists>k status. k \<le> 100
        \<and> trigger_zero_after u (trace u @ erase_sector_writes bank i) k
        \<and> host u (trace u @ erase_sector_writes bank i @ poll_events k
                   @ [ReadU32 NUMICRO_FLASH_ISPTRG]) (ReadU32 NUMICRO_FLASH_ISPCON) = Inr status
        \<and> u' = u\<lparr>trace := trace u @ erase_sector_run bank i k status\<rparr>)"

text \<open>The sectors of a list are erased one after the other, in the order of the list.\<close>

fun sectors_erased :: "flash_bank \<Rightarrow> nat list \<Rightarrow> target \<Rightarrow> target \<Rightarrow> bool" where
  "sectors_erased bank [] u u' = (u' = u)"
| "sectors_erased bank (i # rest) u u' =
     (\<exists>u1. sector_erased bank i u u1 \<and> sectors_erased bank rest u1 u')"

text \<open>
  A run from \<open>t\<close> to \<open>t'\<close> that only adds requests to the trace, \<open>ws\<close> being its writes to the
  command, address and trigger registers.
\<close>

definition command_writes :: "event list \<Rightarrow> target \<Rightarrow> target \<Rightarrow> bool" where
  "command_writes ws t t' =
     (host t' = host t \<and> state t' = state t \<and> working_area_size t' = working_area_size t
      \<and> working_areas t' = working_areas t
      \<and> (\<exists>evs. trace t' = trace t @ evs \<and> filter isp_command_write evs = ws))"

abbreviation quiet_step :: "target \<Rightarrow> target \<Rightarrow> bool" where
  "quiet_step \<equiv> command_writes []"

text \<open>A host on which every read and write of a register succeeds.\<close>

definition registers_respond :: "target \<Rightarrow> bool" where
  "registers_respond t =
     ((\<forall>tr a. \<exists>v. host t tr (ReadU32 a) = Inr v)
      \<and> (\<forall>tr a w. \<exists>v. host t tr (WriteU32 a w) = Inr v))"




text \<open>
  A host whose trigger register, wherever the polling starts, reads 0 at one of the first
  101 polls (after at most 100 polls, each followed by the pause of 1 ms).
\<close>

definition trigger_clears :: "target \<Rightarrow> bool" where
  "trigger_clears t =
     (\<forall>tr. \<exists>k\<le>100. host t (tr @ poll_events k) (ReadU32 NUMICRO_FLASH_ISPTRG) = Inr 0)"


section \<open>Concrete runs\<close>

text \<open>A halted (or running) target with 4096 bytes of working area, in front of a given host.\<close>

definition target_in :: "target_state \<Rightarrow> (event list \<Rightarrow> event \<Rightarrow> error + u32) \<Rightarrow> target" where
  "target_in s h =
     \<lparr>state = s, working_area_size = 4096, host = h, trace = [], working_areas = []\<rparr>"

text \<open>
  The program-memory bank of the specification's scenario: base 0, 32768 bytes, 64 sectors
  of 512 bytes, as \<open>numicro_probe\<close> leaves it for an M058LAN.
\<close>

definition aprom_bank :: flash_bank where
  "aprom_bank =
     \<lparr>bank_base = 0, bank_size = 32768,
      sectors = map (\<lambda>i. \<lparr>sector_offset = of_nat i * 512, sector_size = 512,
                            is_erased = - 1, is_protected = 0\<rparr>) [0..<64],
      driver_priv = \<lparr>probed = True,
                     priv_cpu = Some (part ''M058LAN'' 0x00005800 (32 * 1024) (4 * 1024) (4 * 1024) 4)\<rparr>\<rparr>"

text \<open>The four bytes of the word \<open>0xDEADBEEF\<close>, least significant first.\<close>

definition deadbeef :: "u8 list" where
  "deadbeef = [0xEF, 0xBE, 0xAD, 0xDE]"

text \<open>
  A host that answers every request with success; every register reads 0 and the working
  areas are at \<open>0x20000000\<close> (the routine) and \<open>0x20000040\<close> (the data).
\<close>

definition host_ok :: "event list \<Rightarrow> event \<Rightarrow> error + u32" where
  "host_ok tr ev =
     (case ev of
        AllocWorkingArea sz \<Rightarrow> if sz = 64 then Inr 0x20000000 else Inr 0x20000040
      | _ \<Rightarrow> Inr 0)"

text \<open>The same host, except that running the downloaded routine fails.\<close>

definition host_run_fails :: "event list \<Rightarrow> event \<Rightarrow> error + u32" where
  "host_run_fails tr ev =
     (case ev of
        RunAlgorithm r0 r1 r2 entry_point exit_point timeout_ms \<Rightarrow> Inl ERROR_FAIL
      | _ \<Rightarrow> host_ok tr ev)"

text \<open>The same host, except that writing a buffer to target memory fails.\<close>

definition host_upload_fails :: "event list \<Rightarrow> event \<Rightarrow> error + u32" where
  "host_upload_fails tr ev =
     (case ev of
        WriteBuffer a sz buffer \<Rightarrow> Inl ERROR_FAIL
      | _ \<Rightarrow> host_ok tr ev)"

text \<open>
  A host whose trigger register reads 1 (busy) at the first two polls and 0 afterwards, and
  whose data register reads \<open>0xDEADBEEF\<close>.
\<close>

definition host_busy_twice :: "event list \<Rightarrow> event \<Rightarrow> error + u32" where
  "host_busy_twice tr ev =
     (if ev = ReadU32 NUMICRO_FLASH_ISPTRG
      then (if length (filter (\<lambda>e. e = ReadU32 NUMICRO_FLASH_ISPTRG) tr) < 2 then Inr 1 else Inr 0)
      else if ev = ReadU32 NUMICRO_FLASH_ISPDAT then Inr 0xDEADBEEF
      else Inr 0)"

text \<open>A host whose trigger register cannot be read.\<close>

definition host_poll_fails :: "event list \<Rightarrow> event \<Rightarrow> error + u32" where
  "host_poll_fails tr ev =
     (if ev = ReadU32 NUMICRO_FLASH_ISPTRG then Inl ERROR_FAIL else host_ok tr ev)"

text \<open>A bank at base 0 that has not been probed, and a host that reports a given part identifier.\<close>

definition unprobed_bank :: flash_bank where
  "unprobed_bank =
     \<lparr>bank_base = 0, bank_size = 0, sectors = [],
      driver_priv = \<lparr>probed = False, priv_cpu = None\<rparr>\<rparr>"

definition host_part_id :: "u32 \<Rightarrow> event list \<Rightarrow> event \<Rightarrow> error + u32" where
  "host_part_id part_id tr ev =
     (if ev = ReadU32 NUMICRO_SYS_BASE then Inr part_id else host_ok tr ev)"

text \<open>A host whose control register reads \<open>0x40\<close>, the failure flag ISPFF.\<close>

definition host_ispff :: "event list \<Rightarrow> event \<Rightarrow> error + u32" where
  "host_ispff tr ev =
     (if ev = ReadU32 NUMICRO_FLASH_ISPCON then Inr 0x40 else host_ok tr ev)"




declare numicro_fmc_cmd_wait.simps [simp del]
declare numicro_wait_trg_zero.simps [simp del]
declare numicro_writeblock_alloc_source.simps [simp del]
declare numicro_erase_loop.simps [simp del]

lemmas reg_defs = NUMICRO_SYS_BASE_def NUMICRO_SYS_WRPROT_def NUMICRO_SYSCLK_AHBCLK_def
  NUMICRO_FLASH_ISPCON_def NUMICRO_FLASH_ISPADR_def NUMICRO_FLASH_ISPDAT_def
  NUMICRO_FLASH_ISPCMD_def NUMICRO_FLASH_ISPTRG_def NUMICRO_FLASH_CHEAT_def
  NUMICRO_CONFIG0_def NUMICRO_CONFIG1_def AHBCLK_ISP_EN_def AHBCLK_SRAM_EN_def AHBCLK_TICK_EN_def
  ISPCON_ISPEN_def ISPCON_APUEN_def ISPCON_CFGUEN_def ISPCON_LDUEN_def ISPCON_ISPFF_def
  CONFIG0_LOCK_MASK_def ISPCMD_READ_def ISPCMD_WRITE_def ISPCMD_ERASE_def ISPCMD_CHIPERASE_def
  ISPTRG_ISPGO_def REG_KEY1_def REG_KEY2_def REG_KEY3_def NUMICRO_PAGESIZE_def

lemmas host_defs = host_call_def host_status_def target_read_u32_def target_write_u32_def
  target_write_memory_def target_write_buffer_def target_alloc_working_area_def
  target_free_working_area_def target_run_algorithm_def busy_sleep_def returnE_def bindE_def

lemmas run_defs = numicro_write_def numicro_init_isp_def numicro_reg_unlock_def
  check_for_failure_def numicro_writeblock_def numicro_writeblock_loop.simps
  numicro_writeblock_alloc_source.simps
  host_defs target_in_def reg_defs numicro_flash_write_code_def aprom_bank_def Let_def deadbeef_def

lemmas erase_defs = numicro_erase_def numicro_erase_loop.simps numicro_erase_sector_def
  numicro_wait_trg_zero.simps check_for_failure_def numicro_init_isp_def numicro_reg_unlock_def
  host_defs target_in_def reg_defs aprom_bank_def Let_def

section \<open>Operations on a target that is not halted\<close>

text \<open>
  Claim C6. If the target CPU is not halted, each public flash operation (erase, write,
  protect_check, and the ISP read, write and chip-erase commands, which go through
  \<open>numicro_init_isp\<close>) fails with \<open>ERROR_TARGET_NOT_HALTED\<close> at once: the target comes back
  as it was, so its trace has no new request and no register was written. The commands are
  taken with the number of arguments they ask for and arguments that parse.
\<close>

theorem not_halted_fails_without_access:
  assumes "state t \<noteq> TARGET_HALTED"
    and "parse_u32 a = Inr addr" and "parse_u32 d = Inr ispdat"
  shows "numicro_erase bank first last' t = (Inl ERROR_TARGET_NOT_HALTED, bank, t)
     \<and> numicro_write bank buffer offset count t = Some (Inl ERROR_TARGET_NOT_HALTED, bank, t)
     \<and> numicro_protect_check config bank t = (Inl ERROR_TARGET_NOT_HALTED, bank, t)
     \<and> numicro_init_isp t = (Inl ERROR_TARGET_NOT_HALTED, t)
     \<and> numicro_handle_read_isp_command parse_u32 [a] t = (Inl ERROR_TARGET_NOT_HALTED, t)
     \<and> numicro_handle_write_isp_command parse_u32 [a, d] t = (Inl ERROR_TARGET_NOT_HALTED, t)
     \<and> numicro_handle_chip_erase_command [] t = (Inl ERROR_TARGET_NOT_HALTED, t)"
  using assms
  by (simp add: numicro_erase_def numicro_write_def numicro_protect_check_def numicro_init_isp_def
      numicro_handle_read_isp_command_def numicro_handle_write_isp_command_def
      numicro_handle_chip_erase_command_def bindE_def)

theorem not_halted_fails_without_access_witness:
  "state (target_in TARGET_RUNNING host_ok) \<noteq> TARGET_HALTED
   \<and> (\<lambda>s. Inr (of_nat (length s))) ''0x0'' = (Inr 3 :: error + u32)
   \<and> (\<lambda>s. Inr (of_nat (length s))) ''0x00'' = (Inr 4 :: error + u32)
   \<and> numicro_erase aprom_bank 0 63 (target_in TARGET_RUNNING host_ok)
       = (Inl ERROR_TARGET_NOT_HALTED, aprom_bank, target_in TARGET_RUNNING host_ok)
   \<and> numicro_write aprom_bank deadbeef 0 4 (target_in TARGET_RUNNING host_ok)
       = Some (Inl ERROR_TARGET_NOT_HALTED, aprom_bank, target_in TARGET_RUNNING host_ok)
   \<and> numicro_protect_check (0, 0) aprom_bank (target_in TARGET_RUNNING host_ok)
       = (Inl ERROR_TARGET_NOT_HALTED, aprom_bank, target_in TARGET_RUNNING host_ok)
   \<and> numicro_handle_read_isp_command (\<lambda>s. Inr (of_nat (length s))) [''0x0'']
         (target_in TARGET_RUNNING host_ok)
       = (Inl ERROR_TARGET_NOT_HALTED, target_in TARGET_RUNNING host_ok)
   \<and> numicro_handle_write_isp_command (\<lambda>s. Inr (of_nat (length s))) [''0x0'', ''0x00'']
         (target_in TARGET_RUNNING host_ok)
       = (Inl ERROR_TARGET_NOT_HALTED, target_in TARGET_RUNNING host_ok)
   \<and> numicro_handle_chip_erase_command [] (target_in TARGET_RUNNING host_ok)
       = (Inl ERROR_TARGET_NOT_HALTED, target_in TARGET_RUNNING host_ok)"
  using not_halted_fails_without_access
    [of "target_in TARGET_RUNNING host_ok" "\<lambda>s. Inr (of_nat (length s))" "''0x0''" 3 "''0x00''" 4
        aprom_bank 0 63 deadbeef 0 4 "(0, 0)"]
  by (simp add: target_in_def)

section \<open>Failures of the bulk-write accelerator\<close>

text \<open>
  Claim C1. A failure of \<open>numicro_writeblock\<close> other than resource-unavailable should come
  back from \<open>numicro_write\<close> as an error. Here the downloaded routine fails to run:
  \<open>numicro_writeblock\<close> returns \<open>ERROR_FLASH_OPERATION_FAILED\<close>, and \<open>numicro_write\<close> does not
  fall back to single words, but it does not return the error either: it goes on to read
  the control register and returns \<open>ERROR_OK\<close>. The trace is the whole run.
\<close>

theorem write_returns_ok_after_block_write_failure:
  "map_option fst
       (numicro_writeblock aprom_bank deadbeef 0 1 (target_in TARGET_HALTED host_run_fails))
     = Some (Inl ERROR_FLASH_OPERATION_FAILED)
   \<and> map_option (\<lambda>(retval, bank, t). (retval, trace t))
       (numicro_write aprom_bank deadbeef 0 4 (target_in TARGET_HALTED host_run_fails))
     = Some (Inr (),
        [ReadU32 0x50000100, WriteU32 0x50000100 0x59, WriteU32 0x50000100 0x16,
         WriteU32 0x50000100 0x88, ReadU32 0x50000100,
         ReadU32 0x50000204, WriteU32 0x50000204 0x34,
         ReadU32 0x5000C000, WriteU32 0x5000C000 0x79, WriteU32 0x5000C01C 1,
         WriteU32 0x5000C00C 0x21,
         AllocWorkingArea 64, WriteBuffer 0x20000000 64 numicro_flash_write_code,
         AllocWorkingArea 2048, WriteBuffer 0x20000040 4 deadbeef,
         RunAlgorithm 0x20000040 0 1 0x20000000 0 100000,
         FreeWorkingArea \<lparr>wa_address = 0x20000040, wa_size = 2048\<rparr>,
         FreeWorkingArea \<lparr>wa_address = 0x20000000, wa_size = 64\<rparr>,
         ReadU32 0x5000C000])"
  by (simp add: run_defs host_run_fails_def host_ok_def)

text \<open>
  Claim C3. Every working area \<open>numicro_writeblock\<close> allocated should be free when it
  returns. Here the upload of the routine fails: \<open>numicro_writeblock\<close> returns the error
  right after \<open>target_write_buffer\<close>, and the area of the routine is still allocated.
\<close>

theorem writeblock_leaks_routine_area_on_upload_failure:
  "map_option (\<lambda>(retval, t). (retval, trace t, working_areas t))
       (numicro_writeblock aprom_bank deadbeef 0 1 (target_in TARGET_HALTED host_upload_fails))
     = Some (Inl ERROR_FAIL,
        [AllocWorkingArea 64, WriteBuffer 0x20000000 64 numicro_flash_write_code],
        [\<lparr>wa_address = 0x20000000, wa_size = 64\<rparr>])"
  by (simp add: run_defs host_upload_fails_def host_ok_def)

section \<open>The command engine's protocol\<close>

lemma poll_events_Suc: "poll_events (Suc k) = [ReadU32 NUMICRO_FLASH_ISPTRG, BusySleep 1] @ poll_events k"
  by (simp add: poll_events_def)

lemma poll_events_0: "poll_events 0 = []"
  by (simp add: poll_events_def)

lemma fmc_cmd_wait_polls:
  assumes ok: "\<forall>tr ev. \<exists>v. host t tr ev = Inr v"
  shows "(\<exists>k. k \<le> unat n
            \<and> (\<forall>j. j < k \<longrightarrow> go_set (host t (trace t @ poll_events j) (ReadU32 NUMICRO_FLASH_ISPTRG)))
            \<and> go_clear (host t (trace t @ poll_events k) (ReadU32 NUMICRO_FLASH_ISPTRG))
            \<and> numicro_fmc_cmd_wait n t
                = (Inr (), t\<lparr>trace := trace t @ poll_events k @ [ReadU32 NUMICRO_FLASH_ISPTRG]\<rparr>))
       \<or> ((\<forall>j. j \<le> unat n \<longrightarrow> go_set (host t (trace t @ poll_events j) (ReadU32 NUMICRO_FLASH_ISPTRG)))
            \<and> numicro_fmc_cmd_wait n t
                = (Inl ERROR_FAIL,
                   t\<lparr>trace := trace t @ poll_events (unat n) @ [ReadU32 NUMICRO_FLASH_ISPTRG]\<rparr>))"
  using ok
proof (induction n t rule: numicro_fmc_cmd_wait.induct)
  case (1 timeout t)
  let ?R = "ReadU32 NUMICRO_FLASH_ISPTRG"
  from "1.prems" obtain status where st: "host t (trace t) ?R = Inr status"
    by blast
  show ?case
  proof (cases "status AND ISPTRG_ISPGO = 0")
    case True
    have "numicro_fmc_cmd_wait timeout t = (Inr (), t\<lparr>trace := trace t @ [?R]\<rparr>)"
      using st True
      by (subst numicro_fmc_cmd_wait.simps) (simp add: target_read_u32_def host_call_def)
    moreover have "go_clear (host t (trace t @ poll_events 0) ?R)"
      using st True by (simp add: go_clear_def poll_events_0)
    ultimately show ?thesis
      by (intro disjI1 exI [of _ 0]) (simp add: poll_events_0)
  next
    case busy: False
    have here: "go_set (host t (trace t) ?R)"
      using st busy by (simp add: go_set_def)
    show ?thesis
    proof (cases "timeout \<le> 0")
      case True
      then have z: "unat timeout = 0"
        by (simp add: word_le_nat_alt)
      have "numicro_fmc_cmd_wait timeout t = (Inl ERROR_FAIL, t\<lparr>trace := trace t @ [?R]\<rparr>)"
        using st busy True
        by (subst numicro_fmc_cmd_wait.simps) (simp add: target_read_u32_def host_call_def)
      then show ?thesis
        using here z by (intro disjI2) (simp add: poll_events_0)
    next
      case False
      then have pos: "unat timeout = Suc (unat (timeout - 1))"
        by (simp add: unat_minus_one unat_gt_0 word_le_nat_alt)
      let ?t1 = "busy_sleep 1 (t\<lparr>trace := trace t @ [?R]\<rparr>)"
      have tr1: "trace ?t1 = trace t @ poll_events 1" and h1: "host ?t1 = host t"
        by (simp_all add: busy_sleep_def poll_events_def)
      have unfold: "numicro_fmc_cmd_wait timeout t = numicro_fmc_cmd_wait (timeout - 1) ?t1"
        using st busy False
        by (subst numicro_fmc_cmd_wait.simps) (simp add: target_read_u32_def host_call_def)
      have rd: "(Inr status, t\<lparr>trace := trace t @ [?R]\<rparr>) = target_read_u32 NUMICRO_FLASH_ISPTRG t"
        using st by (simp add: target_read_u32_def host_call_def)
      have ok1: "\<forall>tr ev. \<exists>v. host ?t1 tr ev = Inr v"
        using "1.prems" h1 by simp
      note ih = "1.IH" [OF rd refl busy False ok1]
      have shift: "trace ?t1 @ poll_events j = trace t @ poll_events (Suc j)" for j
        by (simp add: busy_sleep_def poll_events_def)
      have upd: "?t1\<lparr>trace := x\<rparr> = t\<lparr>trace := x\<rparr>" for x
        by (simp add: busy_sleep_def)
      from ih show ?thesis
      proof
        assume "\<exists>k. k \<le> unat (timeout - 1)
            \<and> (\<forall>j. j < k \<longrightarrow> go_set (host ?t1 (trace ?t1 @ poll_events j) ?R))
            \<and> go_clear (host ?t1 (trace ?t1 @ poll_events k) ?R)
            \<and> numicro_fmc_cmd_wait (timeout - 1) ?t1
                = (Inr (), ?t1\<lparr>trace := trace ?t1 @ poll_events k @ [?R]\<rparr>)"
        then obtain k where k: "k \<le> unat (timeout - 1)"
          and set: "\<forall>j. j < k \<longrightarrow> go_set (host t (trace t @ poll_events (Suc j)) ?R)"
          and clear: "go_clear (host t (trace t @ poll_events (Suc k)) ?R)"
          and res: "numicro_fmc_cmd_wait (timeout - 1) ?t1
                = (Inr (), t\<lparr>trace := trace t @ poll_events (Suc k) @ [?R]\<rparr>)"
          unfolding shift h1 upd append_assoc [symmetric] by blast
        have all: "\<forall>j. j < Suc k \<longrightarrow> go_set (host t (trace t @ poll_events j) ?R)"
        proof (intro allI impI)
          fix j assume "j < Suc k"
          then show "go_set (host t (trace t @ poll_events j) ?R)"
            using here set by (cases j) (simp_all add: poll_events_0)
        qed
        show ?thesis
          using k pos all clear res unfold
          by (intro disjI1 exI [of _ "Suc k"]) simp
      next
        assume "(\<forall>j. j \<le> unat (timeout - 1) \<longrightarrow> go_set (host ?t1 (trace ?t1 @ poll_events j) ?R))
            \<and> numicro_fmc_cmd_wait (timeout - 1) ?t1
                = (Inl ERROR_FAIL, ?t1\<lparr>trace := trace ?t1 @ poll_events (unat (timeout - 1)) @ [?R]\<rparr>)"
        then have set: "\<forall>j. j \<le> unat (timeout - 1) \<longrightarrow> go_set (host t (trace t @ poll_events (Suc j)) ?R)"
          and res: "numicro_fmc_cmd_wait (timeout - 1) ?t1
                = (Inl ERROR_FAIL, t\<lparr>trace := trace t @ poll_events (Suc (unat (timeout - 1))) @ [?R]\<rparr>)"
          unfolding shift h1 upd append_assoc [symmetric] by blast+
        have all: "\<forall>j. j \<le> unat timeout \<longrightarrow> go_set (host t (trace t @ poll_events j) ?R)"
        proof (intro allI impI)
          fix j assume "j \<le> unat timeout"
          then show "go_set (host t (trace t @ poll_events j) ?R)"
            using here set pos by (cases j) (simp_all add: poll_events_0)
        qed
        show ?thesis
          using all res unfold pos by (intro disjI2) simp
      qed
    qed
  qed
qed


lemma write_u32_ok:
  assumes "\<forall>tr ev. \<exists>v. host t tr ev = Inr v"
  shows "target_write_u32 a v t = (Inr (), t\<lparr>trace := trace t @ [WriteU32 a v]\<rparr>)"
proof -
  from assms obtain r where "host t (trace t) (WriteU32 a v) = Inr r"
    by blast
  then show ?thesis
    by (simp add: target_write_u32_def host_status_def host_call_def)
qed

text \<open>
  Claim C7. For every command code, address and data word, on a host whose accesses all
  succeed, \<open>numicro_fmc_cmd\<close> writes the command register, the data register, the address
  register and the GO bit of the trigger register, in this order; it then polls the trigger
  register, pausing 1 ms after each poll that finds GO set. Either some poll \<open>k \<le> 100\<close>
  (the first one or one of the 100 retries) finds GO clear, and the result is what the host
  answers to the read of the data register that follows; or all 101 polls find GO set, and
  the result is \<open>ERROR_FAIL\<close> after 100 pauses.
\<close>

theorem fmc_cmd_protocol:
  assumes ok: "\<forall>tr ev. \<exists>v. host t tr ev = Inr v"
  shows "(\<exists>k. k \<le> 100
            \<and> (\<forall>j. j < k \<longrightarrow>
                  go_set (host t (trace t @ fmc_cmd_writes cmd addr wdata @ poll_events j)
                            (ReadU32 NUMICRO_FLASH_ISPTRG)))
            \<and> go_clear (host t (trace t @ fmc_cmd_writes cmd addr wdata @ poll_events k)
                          (ReadU32 NUMICRO_FLASH_ISPTRG))
            \<and> numicro_fmc_cmd cmd addr wdata t
                = (host t (trace t @ fmc_cmd_writes cmd addr wdata @ poll_events k
                             @ [ReadU32 NUMICRO_FLASH_ISPTRG]) (ReadU32 NUMICRO_FLASH_ISPDAT),
                   t\<lparr>trace := trace t @ fmc_cmd_writes cmd addr wdata @ poll_events k
                             @ [ReadU32 NUMICRO_FLASH_ISPTRG, ReadU32 NUMICRO_FLASH_ISPDAT]\<rparr>))
       \<or> ((\<forall>j. j \<le> 100 \<longrightarrow>
                  go_set (host t (trace t @ fmc_cmd_writes cmd addr wdata @ poll_events j)
                            (ReadU32 NUMICRO_FLASH_ISPTRG)))
            \<and> numicro_fmc_cmd cmd addr wdata t
                = (Inl ERROR_FAIL,
                   t\<lparr>trace := trace t @ fmc_cmd_writes cmd addr wdata @ poll_events 100
                             @ [ReadU32 NUMICRO_FLASH_ISPTRG]\<rparr>))"
proof -
  let ?R = "ReadU32 NUMICRO_FLASH_ISPTRG"
  let ?w = "fmc_cmd_writes cmd addr wdata"
  let ?t4 = "t\<lparr>trace := trace t @ ?w\<rparr>"
  have ok4: "\<forall>tr ev. \<exists>v. host ?t4 tr ev = Inr v"
    using ok by simp
  have writes: "numicro_fmc_cmd cmd addr wdata t
      = bindE (numicro_fmc_cmd_wait 100) (\<lambda>_. target_read_u32 NUMICRO_FLASH_ISPDAT) ?t4"
    using ok by (simp add: numicro_fmc_cmd_def bindE_def write_u32_ok fmc_cmd_writes_def)
  have tr4: "trace ?t4 = trace t @ ?w" and h4: "host ?t4 = host t"
    and upd: "?t4\<lparr>trace := x\<rparr> = t\<lparr>trace := x\<rparr>" for x
    by simp_all
  have n: "unat (100 :: u32) = 100"
    by simp
  from fmc_cmd_wait_polls [OF ok4, of 100] show ?thesis
    unfolding tr4 h4 upd n
  proof
    assume "\<exists>k\<le>100.
       (\<forall>j<k. go_set (host t ((trace t @ ?w) @ poll_events j) ?R)) \<and>
       go_clear (host t ((trace t @ ?w) @ poll_events k) ?R) \<and>
       numicro_fmc_cmd_wait 100 ?t4 = (Inr (), t\<lparr>trace := (trace t @ ?w) @ poll_events k @ [?R]\<rparr>)"
    then obtain k where k: "k \<le> 100"
      and set: "\<forall>j<k. go_set (host t (trace t @ ?w @ poll_events j) ?R)"
      and clear: "go_clear (host t (trace t @ ?w @ poll_events k) ?R)"
      and res: "numicro_fmc_cmd_wait 100 ?t4 = (Inr (), t\<lparr>trace := trace t @ ?w @ poll_events k @ [?R]\<rparr>)"
      by auto
    have "numicro_fmc_cmd cmd addr wdata t
        = (host t (trace t @ ?w @ poll_events k @ [?R]) (ReadU32 NUMICRO_FLASH_ISPDAT),
           t\<lparr>trace := trace t @ ?w @ poll_events k @ [?R, ReadU32 NUMICRO_FLASH_ISPDAT]\<rparr>)"
      unfolding writes by (simp add: bindE_def res target_read_u32_def host_call_def)
    with k set clear show ?thesis
      by (intro disjI1 exI [of _ k]) simp
  next
    assume "(\<forall>j\<le>100. go_set (host t ((trace t @ ?w) @ poll_events j) ?R)) \<and>
       numicro_fmc_cmd_wait 100 ?t4 = (Inl ERROR_FAIL, t\<lparr>trace := (trace t @ ?w) @ poll_events 100 @ [?R]\<rparr>)"
    then have set: "\<forall>j\<le>100. go_set (host t (trace t @ ?w @ poll_events j) ?R)"
      and res: "numicro_fmc_cmd_wait 100 ?t4 = (Inl ERROR_FAIL, t\<lparr>trace := trace t @ ?w @ poll_events 100 @ [?R]\<rparr>)"
      by auto
    have "numicro_fmc_cmd cmd addr wdata t
        = (Inl ERROR_FAIL, t\<lparr>trace := trace t @ ?w @ poll_events 100 @ [?R]\<rparr>)"
      unfolding writes by (simp add: bindE_def res)
    with set show ?thesis
      by (intro disjI2) simp
  qed
qed

theorem fmc_cmd_protocol_witness:
  "(\<forall>tr ev. \<exists>v. host (target_in TARGET_HALTED host_busy_twice) tr ev = Inr v)
   \<and> numicro_fmc_cmd ISPCMD_READ 0x100 0 (target_in TARGET_HALTED host_busy_twice)
     = (Inr 0xDEADBEEF,
        (target_in TARGET_HALTED host_busy_twice)
          \<lparr>trace := [WriteU32 0x5000C00C 0, WriteU32 0x5000C008 0, WriteU32 0x5000C004 0x100,
                     WriteU32 0x5000C010 1,
                     ReadU32 0x5000C010, BusySleep 1, ReadU32 0x5000C010, BusySleep 1,
                     ReadU32 0x5000C010, ReadU32 0x5000C008]\<rparr>)"
  using fmc_cmd_protocol [of "target_in TARGET_HALTED host_busy_twice" ISPCMD_READ "0x100" 0]
  by (simp add: numicro_fmc_cmd_def numicro_fmc_cmd_wait.simps host_defs reg_defs target_in_def
      host_busy_twice_def)

section \<open>Lock-state query\<close>

text \<open>
  Claim C10. \<open>numicro_protect_check\<close> discards the status of its two configuration-word
  reads: once the target is halted and \<open>numicro_init_isp\<close> has succeeded, it returns
  \<open>ERROR_OK\<close> whatever the two calls of \<open>numicro_fmc_cmd\<close> return, and gives every sector of
  the bank the same flag, derived from the word the first read delivered or, when that read
  failed, from what \<open>config[0]\<close> happened to hold.
\<close>

theorem protect_check_ignores_read_status:
  assumes halted: "state t = TARGET_HALTED"
    and init: "fst (numicro_init_isp t) = Inr ()"
  shows "fst (numicro_protect_check config bank t) = Inr ()
     \<and> sectors (fst (snd (numicro_protect_check config bank t)))
       = map (\<lambda>s. s\<lparr>is_protected :=
                lock_flag (case fst (numicro_fmc_cmd ISPCMD_READ NUMICRO_CONFIG0 0
                                       (snd (numicro_init_isp t))) of
                             Inl e \<Rightarrow> fst config
                           | Inr v \<Rightarrow> v)\<rparr>) (sectors bank)"
proof -
  obtain t1 where i: "numicro_init_isp t = (Inr (), t1)"
    using init by (cases "numicro_init_isp t") simp
  obtain r0 t2 where r0: "numicro_fmc_cmd ISPCMD_READ NUMICRO_CONFIG0 0 t1 = (r0, t2)"
    by (cases "numicro_fmc_cmd ISPCMD_READ NUMICRO_CONFIG0 0 t1")
  obtain r1 t3 where r1: "numicro_fmc_cmd ISPCMD_READ NUMICRO_CONFIG1 0 t2 = (r1, t3)"
    by (cases "numicro_fmc_cmd ISPCMD_READ NUMICRO_CONFIG1 0 t2")
  show ?thesis
    using halted
    by (cases r0) (simp_all add: numicro_protect_check_def i r0 r1 lock_flag_def)
qed

theorem protect_check_ignores_read_status_witness:
  "state (target_in TARGET_HALTED host_poll_fails) = TARGET_HALTED
   \<and> fst (numicro_init_isp (target_in TARGET_HALTED host_poll_fails)) = Inr ()
   \<and> fst (numicro_fmc_cmd ISPCMD_READ NUMICRO_CONFIG0 0
            (snd (numicro_init_isp (target_in TARGET_HALTED host_poll_fails)))) = Inl ERROR_FAIL
   \<and> fst (numicro_protect_check (0, 0) aprom_bank (target_in TARGET_HALTED host_poll_fails)) = Inr ()
   \<and> map is_protected
        (sectors (fst (snd (numicro_protect_check (0, 0) aprom_bank
                              (target_in TARGET_HALTED host_poll_fails)))))
      = replicate 64 1"
proof -
  let ?t = "target_in TARGET_HALTED host_poll_fails"
  have halted: "state ?t = TARGET_HALTED"
    by (simp add: target_in_def)
  have init: "fst (numicro_init_isp ?t) = Inr ()"
    by (simp add: numicro_init_isp_def numicro_reg_unlock_def host_defs reg_defs target_in_def
        host_poll_fails_def host_ok_def)
  have rd: "fst (numicro_fmc_cmd ISPCMD_READ NUMICRO_CONFIG0 0 (snd (numicro_init_isp ?t)))
      = Inl ERROR_FAIL"
    by (simp add: numicro_fmc_cmd_def numicro_fmc_cmd_wait.simps numicro_init_isp_def
        numicro_reg_unlock_def host_defs reg_defs target_in_def host_poll_fails_def host_ok_def)
  have len: "length (sectors aprom_bank) = 64"
    by (simp add: aprom_bank_def)
  from protect_check_ignores_read_status [OF halted init, of "(0, 0)" aprom_bank]
  show ?thesis
    by (simp add: halted init rd lock_flag_def CONFIG0_LOCK_MASK_def comp_def len
        map_replicate_const)
qed

section \<open>Geometry resolution\<close>

lemma parts_regions:
  "list_all (\<lambda>p. n_banks p = 4 \<and> map region_base (cpu_banks p)
      = [NUMICRO_APROM_BASE, NUMICRO_DATA_BASE, NUMICRO_LDROM_BASE, NUMICRO_CONFIG_BASE]) numicro_parts"
  by (simp add: numicro_parts_def part_def NUMICRO_BANKS_GENERAL_def)

lemma get_flash_size_of_region:
  assumes p: "p \<in> set numicro_parts"
    and r: "r \<in> set (cpu_banks p)"
    and base: "bank_base bank = ucast (region_base r)"
  shows "numicro_get_flash_size bank p = Inr (region_size r)"
proof -
  from p parts_regions have n: "n_banks p = 4"
    and bases: "map region_base (cpu_banks p)
      = [NUMICRO_APROM_BASE, NUMICRO_DATA_BASE, NUMICRO_LDROM_BASE, NUMICRO_CONFIG_BASE]"
    by (auto simp: list_all_iff)
  from bases obtain b0 b1 b2 b3 where bs: "cpu_banks p = [b0, b1, b2, b3]"
    and b0: "region_base b0 = NUMICRO_APROM_BASE" and b1: "region_base b1 = NUMICRO_DATA_BASE"
    and b2: "region_base b2 = NUMICRO_LDROM_BASE" and b3: "region_base b3 = NUMICRO_CONFIG_BASE"
    by (auto simp: map_eq_Cons_conv)
  from r bs have "r = b0 \<or> r = b1 \<or> r = b2 \<or> r = b3"
    by auto
  then show ?thesis
    using base
    by (auto simp: numicro_get_flash_size_def n bs b0 b1 b2 b3 NUMICRO_APROM_BASE_def
        NUMICRO_DATA_BASE_def NUMICRO_LDROM_BASE_def NUMICRO_CONFIG_BASE_def)
qed

text \<open>
  Claim C8. Let the identifier register read \<open>part_id\<close>. If entry \<open>i\<close> of the catalog is the
  first with exactly that identifier and the bank's base address is the base of a region \<open>r\<close>
  of that entry, \<open>numicro_probe\<close> succeeds, sets the bank's size to the size of \<open>r\<close>, gives it
  that size divided by 512 sectors and records the entry and that the bank is probed. If no
  entry has that identifier, \<open>numicro_probe\<close> fails (with \<open>ERROR_FLASH_OPERATION_FAILED\<close>) and
  the bank is as it was.
\<close>

theorem probe_resolves_geometry:
  assumes id: "host t (trace t) (ReadU32 NUMICRO_SYS_BASE) = Inr part_id"
  shows "(\<forall>i r. i < length numicro_parts \<and> partid (numicro_parts ! i) = part_id
              \<and> (\<forall>j. j < i \<longrightarrow> partid (numicro_parts ! j) \<noteq> part_id)
              \<and> r \<in> set (cpu_banks (numicro_parts ! i))
              \<and> bank_base bank = ucast (region_base r)
           \<longrightarrow> numicro_probe bank t
               = (Inr (),
                  bank\<lparr>bank_size := region_size r,
                       sectors := probed_sectors (region_size r),
                       driver_priv := \<lparr>probed = True, priv_cpu = Some (numicro_parts ! i)\<rparr>\<rparr>,
                  t\<lparr>trace := trace t @ [ReadU32 NUMICRO_SYS_BASE]\<rparr>)
             \<and> length (probed_sectors (region_size r)) = unat (region_size r) div 512)
     \<and> (part_id \<notin> partid ` set numicro_parts
           \<longrightarrow> numicro_probe bank t
               = (Inl ERROR_FLASH_OPERATION_FAILED, bank,
                  t\<lparr>trace := trace t @ [ReadU32 NUMICRO_SYS_BASE]\<rparr>))"
proof (intro conjI allI impI)
  fix i r
  assume a: "i < length numicro_parts \<and> partid (numicro_parts ! i) = part_id
              \<and> (\<forall>j. j < i \<longrightarrow> partid (numicro_parts ! j) \<noteq> part_id)
              \<and> r \<in> set (cpu_banks (numicro_parts ! i))
              \<and> bank_base bank = ucast (region_base r)"
  let ?p = "numicro_parts ! i"
  have "find (\<lambda>p. part_id = partid p) numicro_parts = Some ?p"
    unfolding find_Some_iff using a by (intro exI [of _ i]) auto
  then have cpu: "numicro_get_cpu_type t = (Inr ?p, t\<lparr>trace := trace t @ [ReadU32 NUMICRO_SYS_BASE]\<rparr>)"
    using id by (simp add: numicro_get_cpu_type_def target_read_u32_def host_call_def)
  from a have "?p \<in> set numicro_parts"
    by simp
  with a have sz: "numicro_get_flash_size bank ?p = Inr (region_size r)"
    by (intro get_flash_size_of_region) simp_all
  show "numicro_probe bank t
      = (Inr (),
         bank\<lparr>bank_size := region_size r,
              sectors := probed_sectors (region_size r),
              driver_priv := \<lparr>probed = True, priv_cpu = Some ?p\<rparr>\<rparr>,
         t\<lparr>trace := trace t @ [ReadU32 NUMICRO_SYS_BASE]\<rparr>)"
    by (simp add: numicro_probe_def cpu sz probed_sectors_def NUMICRO_PAGESIZE_def unat_div)
  show "length (probed_sectors (region_size r)) = unat (region_size r) div 512"
    by (simp add: probed_sectors_def)
next
  assume "part_id \<notin> partid ` set numicro_parts"
  then have "find (\<lambda>p. part_id = partid p) numicro_parts = None"
    by (auto simp: find_None_iff)
  then have "numicro_get_cpu_type t
      = (Inl ERROR_FAIL, t\<lparr>trace := trace t @ [ReadU32 NUMICRO_SYS_BASE]\<rparr>)"
    using id by (simp add: numicro_get_cpu_type_def target_read_u32_def host_call_def)
  then show "numicro_probe bank t
      = (Inl ERROR_FLASH_OPERATION_FAILED, bank,
         t\<lparr>trace := trace t @ [ReadU32 NUMICRO_SYS_BASE]\<rparr>)"
    by (simp add: numicro_probe_def)
qed

theorem probe_resolves_geometry_witness:
  "host (target_in TARGET_HALTED (host_part_id 0x00005800)) [] (ReadU32 NUMICRO_SYS_BASE)
     = Inr 0x00005800
   \<and> partid (numicro_parts ! 2) = 0x00005800
   \<and> numicro_probe unprobed_bank (target_in TARGET_HALTED (host_part_id 0x00005800))
     = (Inr (), aprom_bank,
        (target_in TARGET_HALTED (host_part_id 0x00005800))\<lparr>trace := [ReadU32 NUMICRO_SYS_BASE]\<rparr>)
   \<and> length (sectors aprom_bank) = 64
   \<and> host (target_in TARGET_HALTED (host_part_id 0xFFFFFFFF)) [] (ReadU32 NUMICRO_SYS_BASE)
     = Inr 0xFFFFFFFF
   \<and> 0xFFFFFFFF \<notin> partid ` set numicro_parts
   \<and> numicro_probe unprobed_bank (target_in TARGET_HALTED (host_part_id 0xFFFFFFFF))
     = (Inl ERROR_FLASH_OPERATION_FAILED, unprobed_bank,
        (target_in TARGET_HALTED (host_part_id 0xFFFFFFFF))\<lparr>trace := [ReadU32 NUMICRO_SYS_BASE]\<rparr>)"
proof -
  let ?t = "target_in TARGET_HALTED (host_part_id 0x00005800)"
  let ?u = "target_in TARGET_HALTED (host_part_id 0xFFFFFFFF)"
  let ?r = "\<lparr>region_base = NUMICRO_APROM_BASE, region_size = 32 * 1024\<rparr>"
  have id: "host ?t (trace ?t) (ReadU32 NUMICRO_SYS_BASE) = Inr 0x00005800"
    by (simp add: target_in_def host_part_id_def)
  have third: "numicro_parts ! 2 = part ''M058LAN'' 0x00005800 (32 * 1024) (4 * 1024) (4 * 1024) 4"
    by (simp add: numicro_parts_def)
  have first: "\<forall>j. j < 2 \<longrightarrow> partid (numicro_parts ! j) \<noteq> 0x00005800"
  proof (intro allI impI)
    fix j :: nat assume "j < 2"
    then have "j = 0 \<or> j = 1" by arith
    then show "partid (numicro_parts ! j) \<noteq> 0x00005800"
      by (auto simp: numicro_parts_def part_def)
  qed
  have entry: "2 < length numicro_parts \<and> partid (numicro_parts ! 2) = 0x00005800
      \<and> (\<forall>j. j < 2 \<longrightarrow> partid (numicro_parts ! j) \<noteq> 0x00005800)
      \<and> ?r \<in> set (cpu_banks (numicro_parts ! 2))
      \<and> bank_base unprobed_bank = ucast (region_base ?r)"
    using first
    by (simp add: third part_def NUMICRO_BANKS_GENERAL_def unprobed_bank_def
        NUMICRO_APROM_BASE_def) (simp add: numicro_parts_def)
  have bank: "unprobed_bank\<lparr>bank_size := region_size ?r,
                 sectors := probed_sectors (region_size ?r),
                 driver_priv := \<lparr>probed = True, priv_cpu = Some (numicro_parts ! 2)\<rparr>\<rparr> = aprom_bank"
    by (simp add: third unprobed_bank_def aprom_bank_def probed_sectors_def)
  have id': "host ?u (trace ?u) (ReadU32 NUMICRO_SYS_BASE) = Inr 0xFFFFFFFF"
    by (simp add: target_in_def host_part_id_def)
  have "list_all (\<lambda>p. partid p \<noteq> 0xFFFFFFFF) numicro_parts"
    by (simp add: numicro_parts_def part_def)
  then have absent: "0xFFFFFFFF \<notin> partid ` set numicro_parts"
    by (auto simp: list_all_iff)
  have tr: "trace ?t = []" "trace ?u = []"
    by (simp_all add: target_in_def)
  note present = probe_resolves_geometry
    [OF id, of unprobed_bank, THEN conjunct1, rule_format, OF entry, unfolded bank tr append_Nil]
  note missing = probe_resolves_geometry
    [OF id', of unprobed_bank, THEN conjunct2, rule_format, OF absent, unfolded tr append_Nil]
  have c1: "host ?t [] (ReadU32 NUMICRO_SYS_BASE) = Inr 0x00005800"
    using id by (simp add: tr)
  have c2: "partid (numicro_parts ! 2) = 0x00005800"
    by (simp add: third part_def)
  have c3: "numicro_probe unprobed_bank ?t = (Inr (), aprom_bank, ?t\<lparr>trace := [ReadU32 NUMICRO_SYS_BASE]\<rparr>)"
    using present by simp
  have c4: "length (sectors aprom_bank) = 64"
    by (simp add: aprom_bank_def)
  have c5: "host ?u [] (ReadU32 NUMICRO_SYS_BASE) = Inr 0xFFFFFFFF"
    using id' by (simp add: tr)
  show ?thesis
    by (intro conjI) (rule c1 c2 c3 c4 c5 absent missing)+
qed

section \<open>Erase\<close>


lemma wait_trg_zero_idle:
  assumes "host t (trace t) (ReadU32 NUMICRO_FLASH_ISPTRG) = Inr 0"
  shows "numicro_wait_trg_zero n t
     = (Inr (), t\<lparr>trace := trace t @ [ReadU32 NUMICRO_FLASH_ISPTRG]\<rparr>)"
  using assms
  by (subst numicro_wait_trg_zero.simps) (simp add: target_read_u32_def host_call_def)

lemma check_for_failure_ok:
  assumes ok: "\<forall>tr ev. \<exists>v. host t tr ev = Inr v"
    and con: "host t (trace t) (ReadU32 NUMICRO_FLASH_ISPCON) = Inr status"
  shows "check_for_failure t
     = (Inr (), t\<lparr>trace := trace t @ ReadU32 NUMICRO_FLASH_ISPCON
                     # (if status AND ISPCON_ISPFF \<noteq> 0
                        then [WriteU32 NUMICRO_FLASH_ISPCON (status OR ISPCON_ISPFF)] else [])\<rparr>)"
proof -
  let ?t1 = "t\<lparr>trace := trace t @ [ReadU32 NUMICRO_FLASH_ISPCON]\<rparr>"
  have ok1: "\<forall>tr ev. \<exists>v. host ?t1 tr ev = Inr v"
    using ok by simp
  show ?thesis
    using con
    by (simp add: check_for_failure_def bindE_def returnE_def target_read_u32_def host_call_def
        write_u32_ok [OF ok1])
qed

lemma erase_sector_ok:
  assumes ok: "\<forall>tr ev. \<exists>v. host t tr ev = Inr v"
    and idle: "\<forall>tr. host t tr (ReadU32 NUMICRO_FLASH_ISPTRG) = Inr 0"
    and con: "\<forall>tr. host t tr (ReadU32 NUMICRO_FLASH_ISPCON) = Inr status"
  shows "numicro_erase_sector bank i t
     = (Inr (), t\<lparr>trace := trace t @ erase_sector_events bank status i\<rparr>)"
proof -
  let ?a = "WriteU32 NUMICRO_FLASH_ISPADR (sector_address bank i)"
  let ?g = "WriteU32 NUMICRO_FLASH_ISPTRG ISPTRG_ISPGO"
  let ?t1 = "t\<lparr>trace := trace t @ [?a]\<rparr>"
  let ?t2 = "t\<lparr>trace := trace t @ [?a, ?g]\<rparr>"
  let ?t3 = "t\<lparr>trace := trace t @ [?a, ?g, ReadU32 NUMICRO_FLASH_ISPTRG]\<rparr>"
  have ok1: "\<forall>tr ev. \<exists>v. host ?t1 tr ev = Inr v" and ok3: "\<forall>tr ev. \<exists>v. host ?t3 tr ev = Inr v"
    using ok by simp_all
  have w1: "target_write_u32 NUMICRO_FLASH_ISPADR (sector_address bank i) t = (Inr (), ?t1)"
    by (rule write_u32_ok [OF ok])
  have w2: "target_write_u32 NUMICRO_FLASH_ISPTRG ISPTRG_ISPGO ?t1 = (Inr (), ?t2)"
    using write_u32_ok [OF ok1, of NUMICRO_FLASH_ISPTRG ISPTRG_ISPGO] by simp
  have w3: "numicro_wait_trg_zero 100 ?t2 = (Inr (), ?t3)"
    using wait_trg_zero_idle [of ?t2 100] idle by simp
  have w4: "check_for_failure ?t3
     = (Inr (), t\<lparr>trace := trace t @ erase_sector_events bank status i\<rparr>)"
    using check_for_failure_ok [OF ok3, of status] con
    by (simp add: erase_sector_events_def)
  show ?thesis
    by (simp add: numicro_erase_sector_def bindE_def w1 w2 w3 w4 sector_address_def [symmetric])
qed

lemma erase_loop_ok:
  assumes ok: "\<forall>tr ev. \<exists>v. host t tr ev = Inr v"
    and idle: "\<forall>tr. host t tr (ReadU32 NUMICRO_FLASH_ISPTRG) = Inr 0"
    and con: "\<forall>tr. host t tr (ReadU32 NUMICRO_FLASH_ISPCON) = Inr status"
    and range: "last' < length (sectors bank)"
  shows "numicro_erase_loop bank i last' t
     = (Inr (), t\<lparr>trace := trace t @ concat (map (erase_sector_events bank status) [i..<Suc last'])\<rparr>)"
  using ok idle con
proof (induction "Suc last' - i" arbitrary: i t)
  case 0
  then have "\<not> i \<le> last'" by simp
  then show ?case
    by (subst numicro_erase_loop.simps) simp
next
  case (Suc n)
  then have le: "i \<le> last'" and n: "n = Suc last' - Suc i"
    by simp_all
  let ?t1 = "t\<lparr>trace := trace t @ erase_sector_events bank status i\<rparr>"
  have one: "numicro_erase_sector bank i t = (Inr (), ?t1)"
    using Suc.prems by (intro erase_sector_ok) simp_all
  have rest: "numicro_erase_loop bank (Suc i) last' ?t1
     = (Inr (), ?t1\<lparr>trace := trace ?t1 @ concat (map (erase_sector_events bank status) [Suc i..<Suc last'])\<rparr>)"
    using Suc.prems by (intro Suc.hyps(1) n) simp_all
  have cons: "[i..<Suc last'] = i # [Suc i..<Suc last']"
    using le by (simp add: upt_conv_Cons)
  show ?case
    using le range
    by (subst numicro_erase_loop.simps) (simp add: one rest cons del: upt_Suc)
qed



lemma sum_case_projr: "\<not> isl x \<Longrightarrow> (case x of Inl e \<Rightarrow> f e | Inr v \<Rightarrow> g v) = g (projr x)"
  by (cases x) simp_all

lemma init_isp_ok:
  assumes ok: "\<forall>tr ev. \<exists>v. host t tr ev = Inr v" and halted: "state t = TARGET_HALTED"
  shows "fst (numicro_init_isp t) = Inr ()"
proof -
  have nofail: "isl (host t tr ev) = False" for tr ev
    using ok by (metis sum.disc(2))
  show ?thesis
    using halted
    by (simp add: numicro_init_isp_def numicro_reg_unlock_def host_defs sum_case_projr nofail)
qed


lemma command_writes_trans:
  "command_writes a t t' \<Longrightarrow> command_writes b t' t'' \<Longrightarrow> command_writes (a @ b) t t''"
  by (auto simp: command_writes_def)

lemma quiet_refl: "quiet_step t t"
  by (simp add: command_writes_def)

lemma quiet_trans: "quiet_step t t' \<Longrightarrow> quiet_step t' t'' \<Longrightarrow> quiet_step t t''"
  by (auto simp: command_writes_def)

lemma quiet_bindE:
  assumes "\<And>t. quiet_step t (snd (m t))" and "\<And>v t. quiet_step t (snd (f v t))"
  shows "quiet_step t (snd (bindE m f t))"
proof (cases "m t")
  case (Pair r t')
  with assms(1) [of t] have q: "quiet_step t t'"
    by simp
  show ?thesis
  proof (cases r)
    case (Inl e)
    with Pair q show ?thesis by (simp add: bindE_def)
  next
    case (Inr v)
    with Pair have "bindE m f t = f v t'" by (simp add: bindE_def)
    with q assms(2) [of t' v] show ?thesis by (auto intro: quiet_trans)
  qed
qed

lemma quiet_returnE: "quiet_step t (snd (returnE v t))"
  by (simp add: returnE_def quiet_refl)

lemma quiet_read: "quiet_step t (snd (target_read_u32 a t))"
  by (simp add: target_read_u32_def host_call_def command_writes_def isp_command_write_def)

lemma quiet_write:
  assumes "a \<noteq> NUMICRO_FLASH_ISPCMD" "a \<noteq> NUMICRO_FLASH_ISPADR" "a \<noteq> NUMICRO_FLASH_ISPTRG"
  shows "quiet_step t (snd (target_write_u32 a v t))"
  using assms
  by (simp add: target_write_u32_def host_status_def host_call_def command_writes_def
      isp_command_write_def split: sum.splits)

lemma quiet_reg_unlock: "quiet_step t (snd (numicro_reg_unlock t))"
  unfolding numicro_reg_unlock_def
  by (intro quiet_bindE quiet_read quiet_returnE)
     (auto intro!: quiet_bindE quiet_write quiet_returnE simp: reg_defs)

lemma quiet_init_isp: "quiet_step t (snd (numicro_init_isp t))"
proof (cases "state t = TARGET_HALTED")
  case False
  then show ?thesis by (simp add: numicro_init_isp_def quiet_refl)
next
  case True
  have "quiet_step t (snd (
         (bindE numicro_reg_unlock (\<lambda>_.
         bindE (target_read_u32 NUMICRO_SYSCLK_AHBCLK) (\<lambda>reg_stat.
         bindE (target_write_u32 NUMICRO_SYSCLK_AHBCLK
                  (reg_stat OR (AHBCLK_ISP_EN OR AHBCLK_SRAM_EN OR AHBCLK_TICK_EN))) (\<lambda>_.
         bindE (target_read_u32 NUMICRO_FLASH_ISPCON) (\<lambda>reg_stat.
         bindE (target_write_u32 NUMICRO_FLASH_ISPCON
                  (reg_stat OR (ISPCON_ISPFF OR ISPCON_LDUEN OR ISPCON_APUEN
                                OR ISPCON_CFGUEN OR ISPCON_ISPEN))) (\<lambda>_.
                target_write_u32 NUMICRO_FLASH_CHEAT 1)))))) t))"
    by (intro quiet_bindE quiet_read quiet_reg_unlock quiet_write) (simp_all add: reg_defs)
  with True show ?thesis by (simp add: numicro_init_isp_def)
qed

lemma quiet_wait_trg_zero: "quiet_step t (snd (numicro_wait_trg_zero n t))"
proof (induction n t rule: numicro_wait_trg_zero.induct)
  case (1 timeout t)
  obtain r t1 where rd: "target_read_u32 NUMICRO_FLASH_ISPTRG t = (r, t1)"
    by (cases "target_read_u32 NUMICRO_FLASH_ISPTRG t")
  with quiet_read [of t NUMICRO_FLASH_ISPTRG] have q1: "quiet_step t t1"
    by simp
  show ?case
  proof (cases r)
    case (Inl e)
    with rd q1 show ?thesis
      by (subst numicro_wait_trg_zero.simps) simp
  next
    case (Inr status)
    show ?thesis
    proof (cases "status = 0 \<or> timeout \<le> 0")
      case True
      with rd Inr q1 show ?thesis
        by (subst numicro_wait_trg_zero.simps) auto
    next
      case False
      then have "quiet_step (busy_sleep 1 t1) (snd (numicro_wait_trg_zero (timeout - 1) (busy_sleep 1 t1)))"
        using "1.IH" [OF rd [symmetric] Inr] by simp
      moreover have "quiet_step t1 (busy_sleep 1 t1)"
        by (simp add: busy_sleep_def command_writes_def isp_command_write_def)
      ultimately have "quiet_step t (snd (numicro_wait_trg_zero (timeout - 1) (busy_sleep 1 t1)))"
        using q1 by (blast intro: quiet_trans)
      with rd Inr False show ?thesis
        by (subst numicro_wait_trg_zero.simps) simp
    qed
  qed
qed

lemma quiet_check_for_failure: "quiet_step t (snd (check_for_failure t))"
  unfolding check_for_failure_def
  by (intro quiet_bindE quiet_read)
     (auto intro!: quiet_write quiet_returnE simp: reg_defs)


lemma bindE_Inr:
  assumes "bindE m f t = (Inr v, t'')"
  obtains u t' where "m t = (Inr u, t')" and "f u t' = (Inr v, t'')"
  using assms by (auto simp: bindE_def split: prod.splits sum.splits)

lemma write_u32_Inr:
  assumes "target_write_u32 a v t = (Inr u, t')"
  shows "t' = t\<lparr>trace := trace t @ [WriteU32 a v]\<rparr>"
  using assms
  by (auto simp: target_write_u32_def host_status_def host_call_def split: sum.splits)

lemma erase_sector_command_writes:
  assumes "numicro_erase_sector bank i t = (Inr u, t')"
  shows "command_writes (erase_sector_writes bank i) t t'"
proof -
  from assms obtain u1 t1 u2 t2 u3 t3
    where w1: "target_write_u32 NUMICRO_FLASH_ISPADR (sector_address bank i) t = (Inr u1, t1)"
      and w2: "target_write_u32 NUMICRO_FLASH_ISPTRG ISPTRG_ISPGO t1 = (Inr u2, t2)"
      and w3: "numicro_wait_trg_zero 100 t2 = (Inr u3, t3)"
      and w4: "check_for_failure t3 = (Inr u, t')"
    unfolding numicro_erase_sector_def sector_address_def [symmetric]
    by (elim bindE_Inr) blast
  have c1: "command_writes (erase_sector_writes bank i) t t2"
    using write_u32_Inr [OF w1] write_u32_Inr [OF w2]
    by (simp add: command_writes_def erase_sector_writes_def isp_command_write_def)
  have c2: "quiet_step t2 t3"
    using quiet_wait_trg_zero [of t2 100] w3 by simp
  have c3: "quiet_step t3 t'"
    using quiet_check_for_failure [of t3] w4 by simp
  from command_writes_trans [OF command_writes_trans [OF c1 c2] c3] show ?thesis
    by simp
qed

lemma erase_loop_command_writes:
  assumes "numicro_erase_loop bank i last' t = (Inr u, t')"
  shows "command_writes (concat (map (erase_sector_writes bank) [i..<Suc last'])) t t'"
  using assms
proof (induction bank i last' t rule: numicro_erase_loop.induct)
  case (1 bank i last' t)
  show ?case
  proof (cases "i \<le> last'")
    case False
    with "1.prems" have "t' = t"
      by (subst (asm) numicro_erase_loop.simps) simp
    with False show ?thesis
      by (simp add: quiet_refl)
  next
    case True
    with "1.prems" have range: "i < length (sectors bank)"
      by (subst (asm) numicro_erase_loop.simps) (simp split: if_splits)
    obtain r t1 where one: "numicro_erase_sector bank i t = (r, t1)"
      by (cases "numicro_erase_sector bank i t")
    with "1.prems" True range obtain u1 where r: "r = Inr u1"
      and rest: "numicro_erase_loop bank (Suc i) last' t1 = (Inr u, t')"
      by (subst (asm) numicro_erase_loop.simps) (cases r; simp)
    have c1: "command_writes (erase_sector_writes bank i) t t1"
      using one r by (intro erase_sector_command_writes) simp
    have c2: "command_writes (concat (map (erase_sector_writes bank) [Suc i..<Suc last'])) t1 t'"
      using "1.IH" [OF True range one [symmetric] r rest] .
    have cons: "[i..<Suc last'] = i # [Suc i..<Suc last']"
      using True by (simp add: upt_conv_Cons)
    from command_writes_trans [OF c1 c2] show ?thesis
      by (simp add: cons del: upt_Suc)
  qed
qed

lemma read_u32_Inr:
  assumes "target_read_u32 a t = (Inr v, t')"
  shows "host t (trace t) (ReadU32 a) = Inr v \<and> t' = t\<lparr>trace := trace t @ [ReadU32 a]\<rparr>"
  using assms by (auto simp: target_read_u32_def host_call_def)

lemma wait_trg_zero_Inr:
  assumes "numicro_wait_trg_zero n t = (Inr u, t')"
  shows "\<exists>k\<le>unat n. trigger_zero_after t (trace t) k
           \<and> t' = t\<lparr>trace := trace t @ poll_events k @ [ReadU32 NUMICRO_FLASH_ISPTRG]\<rparr>"
  using assms
proof (induction n t rule: numicro_wait_trg_zero.induct)
  case (1 timeout t)
  let ?R = "ReadU32 NUMICRO_FLASH_ISPTRG"
  let ?t1 = "t\<lparr>trace := trace t @ [?R]\<rparr>"
  have rd: "target_read_u32 NUMICRO_FLASH_ISPTRG t = (host t (trace t) ?R, ?t1)"
    by (simp add: target_read_u32_def host_call_def)
  show ?case
  proof (cases "host t (trace t) ?R")
    case (Inl e)
    with "1.prems" rd show ?thesis
      by (subst (asm) numicro_wait_trg_zero.simps) simp
  next
    case (Inr status)
    show ?thesis
    proof (cases "status = 0")
      case True
      with "1.prems" rd Inr have "t' = ?t1"
        by (subst (asm) numicro_wait_trg_zero.simps) simp
      with Inr True show ?thesis
        by (intro exI [of _ 0]) (simp add: trigger_zero_after_def poll_events_0)
    next
      case busy: False
      with "1.prems" rd Inr have more: "\<not> timeout \<le> 0"
        by (subst (asm) numicro_wait_trg_zero.simps) (auto split: if_splits)
      let ?t2 = "busy_sleep 1 ?t1"
      from "1.prems" rd Inr busy more
      have rest: "numicro_wait_trg_zero (timeout - 1) ?t2 = (Inr u, t')"
        by (subst (asm) numicro_wait_trg_zero.simps) simp
      from "1.IH" [OF rd [symmetric, unfolded Inr] refl busy more rest]
      obtain k where k: "k \<le> unat (timeout - 1)"
        and z: "trigger_zero_after ?t2 (trace ?t2) k"
        and t': "t' = ?t2\<lparr>trace := trace ?t2 @ poll_events k @ [?R]\<rparr>"
        by blast
      have pos: "unat timeout = Suc (unat (timeout - 1))"
        using more by (simp add: unat_minus_one unat_gt_0 word_le_nat_alt)
      have shift: "trace ?t2 @ poll_events j = trace t @ poll_events (Suc j)" for j
        by (simp add: busy_sleep_def poll_events_def)
      have h2: "host ?t2 = host t"
        by (simp add: busy_sleep_def)
      have "trigger_zero_after t (trace t) (Suc k)"
        unfolding trigger_zero_after_def
      proof (intro conjI allI impI)
        fix m assume "m < Suc k"
        show "\<exists>v. v \<noteq> 0 \<and> host t (trace t @ poll_events m) ?R = Inr v"
        proof (cases m)
          case 0
          with Inr busy show ?thesis by (simp add: poll_events_0)
        next
          case (Suc j)
          with \<open>m < Suc k\<close> have "j < k" by simp
          with z show ?thesis
            unfolding trigger_zero_after_def shift h2 Suc by blast
        qed
      next
        from z show "host t (trace t @ poll_events (Suc k)) ?R = Inr 0"
          unfolding trigger_zero_after_def shift h2 by blast
      qed
      moreover have "t' = t\<lparr>trace := trace t @ poll_events (Suc k) @ [?R]\<rparr>"
        unfolding t' by (simp add: busy_sleep_def poll_events_def)
      ultimately show ?thesis
        using k pos by (intro exI [of _ "Suc k"]) simp
    qed
  qed
qed

lemma check_for_failure_Inr:
  assumes "check_for_failure t = (Inr u, t')"
  shows "\<exists>status. host t (trace t) (ReadU32 NUMICRO_FLASH_ISPCON) = Inr status
           \<and> t' = t\<lparr>trace := trace t @ ReadU32 NUMICRO_FLASH_ISPCON
                       # (if status AND ISPCON_ISPFF \<noteq> 0
                          then [WriteU32 NUMICRO_FLASH_ISPCON (status OR ISPCON_ISPFF)]
                          else [])\<rparr>"
proof -
  from assms obtain status t1
    where r: "target_read_u32 NUMICRO_FLASH_ISPCON t = (Inr status, t1)"
      and w: "(if status AND ISPCON_ISPFF \<noteq> 0
               then target_write_u32 NUMICRO_FLASH_ISPCON (status OR ISPCON_ISPFF)
               else returnE ()) t1 = (Inr u, t')"
    unfolding check_for_failure_def by (elim bindE_Inr) blast
  note r' = read_u32_Inr [OF r]
  show ?thesis
  proof (cases "status AND ISPCON_ISPFF \<noteq> 0")
    case True
    with w have "target_write_u32 NUMICRO_FLASH_ISPCON (status OR ISPCON_ISPFF) t1 = (Inr u, t')"
      by simp
    from write_u32_Inr [OF this] r' True show ?thesis
      by (intro exI [of _ status]) simp
  next
    case False
    with w have "t' = t1"
      by (simp add: returnE_def)
    with r' False show ?thesis
      by (intro exI [of _ status]) simp
  qed
qed

lemma erase_sector_Inr:
  assumes "numicro_erase_sector bank i t = (Inr u, t')"
  shows "sector_erased bank i t t'"
proof -
  from assms obtain u1 t1 u2 t2 u3 t3
    where w1: "target_write_u32 NUMICRO_FLASH_ISPADR (sector_address bank i) t = (Inr u1, t1)"
      and w2: "target_write_u32 NUMICRO_FLASH_ISPTRG ISPTRG_ISPGO t1 = (Inr u2, t2)"
      and w3: "numicro_wait_trg_zero 100 t2 = (Inr u3, t3)"
      and w4: "check_for_failure t3 = (Inr u, t')"
    unfolding numicro_erase_sector_def sector_address_def [symmetric]
    by (elim bindE_Inr) blast
  have t2: "t2 = t\<lparr>trace := trace t @ erase_sector_writes bank i\<rparr>"
    using write_u32_Inr [OF w1] write_u32_Inr [OF w2] by (simp add: erase_sector_writes_def)
  from wait_trg_zero_Inr [OF w3] obtain k where k: "k \<le> 100"
    and z: "trigger_zero_after t2 (trace t2) k"
    and t3: "t3 = t2\<lparr>trace := trace t2 @ poll_events k @ [ReadU32 NUMICRO_FLASH_ISPTRG]\<rparr>"
    by auto
  from check_for_failure_Inr [OF w4] obtain status
    where c: "host t3 (trace t3) (ReadU32 NUMICRO_FLASH_ISPCON) = Inr status"
      and t': "t' = t3\<lparr>trace := trace t3 @ ReadU32 NUMICRO_FLASH_ISPCON
                       # (if status AND ISPCON_ISPFF \<noteq> 0
                          then [WriteU32 NUMICRO_FLASH_ISPCON (status OR ISPCON_ISPFF)]
                          else [])\<rparr>"
    by blast
  show ?thesis
    unfolding sector_erased_def
  proof (intro exI [of _ k] exI [of _ status] conjI)
    show "k \<le> 100" by (rule k)
    show "trigger_zero_after t (trace t @ erase_sector_writes bank i) k"
      using z by (simp add: t2 trigger_zero_after_def)
    show "host t (trace t @ erase_sector_writes bank i @ poll_events k
                   @ [ReadU32 NUMICRO_FLASH_ISPTRG]) (ReadU32 NUMICRO_FLASH_ISPCON) = Inr status"
      using c by (simp add: t3 t2)
    show "t' = t\<lparr>trace := trace t @ erase_sector_run bank i k status\<rparr>"
      unfolding t' t3 t2 by (simp add: erase_sector_run_def)
  qed
qed

lemma erase_loop_Inr:
  assumes "numicro_erase_loop bank i last' t = (Inr u, t')"
  shows "sectors_erased bank [i..<Suc last'] t t'"
  using assms
proof (induction bank i last' t rule: numicro_erase_loop.induct)
  case (1 bank i last' t)
  show ?case
  proof (cases "i \<le> last'")
    case False
    with "1.prems" have "t' = t"
      by (subst (asm) numicro_erase_loop.simps) simp
    with False show ?thesis
      by simp
  next
    case True
    with "1.prems" have range: "i < length (sectors bank)"
      by (subst (asm) numicro_erase_loop.simps) (simp split: if_splits)
    obtain r t1 where one: "numicro_erase_sector bank i t = (r, t1)"
      by (cases "numicro_erase_sector bank i t")
    with "1.prems" True range obtain u1 where r: "r = Inr u1"
      and rest: "numicro_erase_loop bank (Suc i) last' t1 = (Inr u, t')"
      by (subst (asm) numicro_erase_loop.simps) (cases r; simp)
    from erase_sector_Inr [of bank i t u1 t1] one r have s: "sector_erased bank i t t1"
      by simp
    have cons: "[i..<Suc last'] = i # [Suc i..<Suc last']"
      using True by (simp add: upt_conv_Cons)
    from "1.IH" [OF True range one [symmetric] r rest] s show ?thesis
      unfolding cons by auto
  qed
qed

lemma host_ok_never_fails: "\<exists>v. host_ok tr ev = Inr v"
  by (simp add: host_ok_def split: event.splits)

lemma erase_run_ok:
  assumes ok: "\<forall>tr ev. \<exists>v. host t tr ev = Inr v"
    and idle: "\<forall>tr. host t tr (ReadU32 NUMICRO_FLASH_ISPTRG) = Inr 0"
    and con: "\<forall>tr. host t tr (ReadU32 NUMICRO_FLASH_ISPCON) = Inr status"
    and halted: "state t = TARGET_HALTED"
    and range: "last' < length (sectors bank)"
  shows "numicro_erase bank first last' t
     = (Inr (), bank,
        (snd (numicro_init_isp t))
          \<lparr>trace := trace (snd (numicro_init_isp t))
                    @ WriteU32 NUMICRO_FLASH_ISPCMD ISPCMD_ERASE
                      # concat (map (erase_sector_events bank status) [first..<Suc last'])\<rparr>)"
proof -
  obtain t1 where i: "numicro_init_isp t = (Inr (), t1)"
    using init_isp_ok [OF ok halted] by (cases "numicro_init_isp t") simp
  let ?t1 = t1
  let ?t2 = "?t1\<lparr>trace := trace ?t1 @ [WriteU32 NUMICRO_FLASH_ISPCMD ISPCMD_ERASE]\<rparr>"
  have h1: "host ?t1 = host t"
    using quiet_init_isp [of t] i by (simp add: command_writes_def)
  have ok1: "\<forall>tr ev. \<exists>v. host ?t1 tr ev = Inr v"
    using ok h1 by simp
  have w: "target_write_u32 NUMICRO_FLASH_ISPCMD ISPCMD_ERASE ?t1 = (Inr (), ?t2)"
    by (rule write_u32_ok [OF ok1])
  have l: "numicro_erase_loop bank first last' ?t2
     = (Inr (), ?t2\<lparr>trace := trace ?t2
          @ concat (map (erase_sector_events bank status) [first..<Suc last'])\<rparr>)"
    using ok idle con h1 range by (intro erase_loop_ok) simp_all
  show ?thesis
    using halted by (simp add: numicro_erase_def bindE_def i w l)
qed

text \<open>
  Claim C4, as the code has it. \<open>numicro_erase\<close> never assigns to the bank: whether it
  succeeds or fails, every sector, inside the range and outside, keeps the erased flag it
  had.
\<close>

theorem erase_leaves_sector_flags:
  "fst (snd (numicro_erase bank first last' t)) = bank"
  by (simp add: numicro_erase_def split: prod.splits)

text \<open>
  Claim C4, as stated, fails: the erase of sectors 0 to 63 of the 32768-byte bank succeeds
  and every sector's erased flag is still -1 (unknown), as \<open>numicro_probe\<close> set it.
\<close>

theorem erase_sets_no_flag_counterexample:
  "fst (numicro_erase aprom_bank 0 63 (target_in TARGET_HALTED host_ok)) = Inr ()
   \<and> map is_erased
        (sectors (fst (snd (numicro_erase aprom_bank 0 63 (target_in TARGET_HALTED host_ok)))))
      = replicate 64 (- 1)"
proof -
  let ?t = "target_in TARGET_HALTED host_ok"
  have ok: "\<forall>tr ev. \<exists>v. host ?t tr ev = Inr v"
    using host_ok_never_fails by (simp add: target_in_def)
  have idle: "\<forall>tr. host ?t tr (ReadU32 NUMICRO_FLASH_ISPTRG) = Inr 0"
    and con: "\<forall>tr. host ?t tr (ReadU32 NUMICRO_FLASH_ISPCON) = Inr 0"
    by (simp_all add: target_in_def host_ok_def)
  have halted: "state ?t = TARGET_HALTED"
    by (simp add: target_in_def)
  have range: "63 < length (sectors aprom_bank)"
    by (simp add: aprom_bank_def)
  have flags: "map is_erased (sectors aprom_bank) = replicate 64 (- 1)"
    by (simp add: aprom_bank_def comp_def map_replicate_const)
  show ?thesis
    unfolding erase_run_ok [OF ok idle con halted range, of 0]
    by (simp add: flags)
qed

text \<open>
  Claim C5, as the code has it. A successful \<open>numicro_erase\<close> first runs
  \<open>numicro_init_isp\<close>, which succeeds; it then writes the erase command to the command
  register, once for the whole call and before the first sector; then, for each sector of
  the range in turn, it writes the sector's absolute address to the address register and GO
  to the trigger register and polls the trigger register, 1 ms apart, until it reads 0,
  which it does after at most 100 busy polls; it then reads the control register (and
  clears ISPFF when set). These are all the requests of the call. In particular its writes
  to the command, address and trigger registers are the one command write followed by the
  address and GO writes of each sector.
\<close>

theorem erase_writes_command_once:
  assumes "fst (numicro_erase bank first last' t) = Inr ()"
  shows "(\<exists>t1. numicro_init_isp t = (Inr (), t1)
           \<and> sectors_erased bank [first..<Suc last']
                (t1\<lparr>trace := trace t1 @ [WriteU32 NUMICRO_FLASH_ISPCMD ISPCMD_ERASE]\<rparr>)
                (snd (snd (numicro_erase bank first last' t))))
     \<and> (\<exists>evs. trace (snd (snd (numicro_erase bank first last' t))) = trace t @ evs
           \<and> filter isp_command_write evs
             = WriteU32 NUMICRO_FLASH_ISPCMD ISPCMD_ERASE
               # concat (map (erase_sector_writes bank) [first..<Suc last']))"
proof -
  obtain t' where res: "numicro_erase bank first last' t = (Inr (), bank, t')"
    using assms
    by (cases "numicro_erase bank first last' t")
       (auto simp: numicro_erase_def split: if_splits prod.splits)
  then have halted: "state t = TARGET_HALTED"
    by (auto simp: numicro_erase_def split: if_splits)
  with res have "bindE numicro_init_isp (\<lambda>_.
              bindE (target_write_u32 NUMICRO_FLASH_ISPCMD ISPCMD_ERASE) (\<lambda>_.
                     numicro_erase_loop bank first last')) t = (Inr (), t')"
    by (simp add: numicro_erase_def split: prod.splits)
  then obtain u1 t1 u2 t2 where i: "numicro_init_isp t = (Inr u1, t1)"
    and w: "target_write_u32 NUMICRO_FLASH_ISPCMD ISPCMD_ERASE t1 = (Inr u2, t2)"
    and l: "numicro_erase_loop bank first last' t2 = (Inr (), t')"
    by (elim bindE_Inr) blast
  from erase_loop_Inr [OF l] write_u32_Inr [OF w] i
  have run: "\<exists>t1. numicro_init_isp t = (Inr (), t1)
           \<and> sectors_erased bank [first..<Suc last']
                (t1\<lparr>trace := trace t1 @ [WriteU32 NUMICRO_FLASH_ISPCMD ISPCMD_ERASE]\<rparr>)
                (snd (snd (numicro_erase bank first last' t)))"
    unfolding res by simp
  have c1: "quiet_step t t1"
    using quiet_init_isp [of t] i by simp
  have c2: "command_writes [WriteU32 NUMICRO_FLASH_ISPCMD ISPCMD_ERASE] t1 t2"
    using write_u32_Inr [OF w] by (simp add: command_writes_def isp_command_write_def)
  have c3: "command_writes (concat (map (erase_sector_writes bank) [first..<Suc last'])) t2 t'"
    using l by (rule erase_loop_command_writes)
  from command_writes_trans [OF command_writes_trans [OF c1 c2] c3]
  have "command_writes (WriteU32 NUMICRO_FLASH_ISPCMD ISPCMD_ERASE
               # concat (map (erase_sector_writes bank) [first..<Suc last'])) t t'"
    by simp
  then have writes: "\<exists>evs. trace (snd (snd (numicro_erase bank first last' t))) = trace t @ evs
           \<and> filter isp_command_write evs
             = WriteU32 NUMICRO_FLASH_ISPCMD ISPCMD_ERASE
               # concat (map (erase_sector_writes bank) [first..<Suc last'])"
    by (simp add: res command_writes_def)
  from run writes show ?thesis
    by (rule conjI)
qed

theorem erase_writes_command_once_witness:
  "fst (numicro_erase aprom_bank 0 1 (target_in TARGET_HALTED host_busy_twice)) = Inr ()
   \<and> trace (snd (snd (numicro_erase aprom_bank 0 1 (target_in TARGET_HALTED host_busy_twice))))
     = [ReadU32 0x50000100, WriteU32 0x50000100 0x59, WriteU32 0x50000100 0x16,
        WriteU32 0x50000100 0x88, ReadU32 0x50000100,
        ReadU32 0x50000204, WriteU32 0x50000204 0x34,
        ReadU32 0x5000C000, WriteU32 0x5000C000 0x79, WriteU32 0x5000C01C 1,
        WriteU32 0x5000C00C 0x22,
        WriteU32 0x5000C004 0, WriteU32 0x5000C010 1,
        ReadU32 0x5000C010, BusySleep 1, ReadU32 0x5000C010, BusySleep 1, ReadU32 0x5000C010,
        ReadU32 0x5000C000,
        WriteU32 0x5000C004 0x200, WriteU32 0x5000C010 1, ReadU32 0x5000C010,
        ReadU32 0x5000C000]
   \<and> filter isp_command_write
        (trace (snd (snd (numicro_erase aprom_bank 0 1
                            (target_in TARGET_HALTED host_busy_twice)))))
     = [WriteU32 NUMICRO_FLASH_ISPCMD ISPCMD_ERASE,
        WriteU32 NUMICRO_FLASH_ISPADR 0, WriteU32 NUMICRO_FLASH_ISPTRG ISPTRG_ISPGO,
        WriteU32 NUMICRO_FLASH_ISPADR 0x200, WriteU32 NUMICRO_FLASH_ISPTRG ISPTRG_ISPGO]"
proof -
  let ?t = "target_in TARGET_HALTED host_busy_twice"
  have run: "fst (numicro_erase aprom_bank 0 1 ?t) = Inr ()"
    by (simp add: erase_defs host_busy_twice_def)
  have all: "trace (snd (snd (numicro_erase aprom_bank 0 1 ?t)))
     = [ReadU32 0x50000100, WriteU32 0x50000100 0x59, WriteU32 0x50000100 0x16,
        WriteU32 0x50000100 0x88, ReadU32 0x50000100,
        ReadU32 0x50000204, WriteU32 0x50000204 0x34,
        ReadU32 0x5000C000, WriteU32 0x5000C000 0x79, WriteU32 0x5000C01C 1,
        WriteU32 0x5000C00C 0x22,
        WriteU32 0x5000C004 0, WriteU32 0x5000C010 1,
        ReadU32 0x5000C010, BusySleep 1, ReadU32 0x5000C010, BusySleep 1, ReadU32 0x5000C010,
        ReadU32 0x5000C000,
        WriteU32 0x5000C004 0x200, WriteU32 0x5000C010 1, ReadU32 0x5000C010,
        ReadU32 0x5000C000]"
    by (simp add: erase_defs host_busy_twice_def)
  have tr: "trace ?t = []"
    by (simp add: target_in_def)
  have ws: "erase_sector_writes aprom_bank 0
      = [WriteU32 NUMICRO_FLASH_ISPADR 0, WriteU32 NUMICRO_FLASH_ISPTRG ISPTRG_ISPGO]"
    "erase_sector_writes aprom_bank (Suc 0)
      = [WriteU32 NUMICRO_FLASH_ISPADR 0x200, WriteU32 NUMICRO_FLASH_ISPTRG ISPTRG_ISPGO]"
    by (simp_all add: erase_sector_writes_def sector_address_def aprom_bank_def)
  from erase_writes_command_once [OF run, THEN conjunct2]
  have writes: "filter isp_command_write (trace (snd (snd (numicro_erase aprom_bank 0 1 ?t))))
     = [WriteU32 NUMICRO_FLASH_ISPCMD ISPCMD_ERASE,
        WriteU32 NUMICRO_FLASH_ISPADR 0, WriteU32 NUMICRO_FLASH_ISPTRG ISPTRG_ISPGO,
        WriteU32 NUMICRO_FLASH_ISPADR 0x200, WriteU32 NUMICRO_FLASH_ISPTRG ISPTRG_ISPGO]"
    by (auto simp: tr ws)
  show ?thesis
    by (intro conjI) (rule run all writes)+
qed

text \<open>
  Claim C5, as stated, fails: erasing sectors 0 and 1 writes the erase command to the
  command register once, before the first sector, and not again for sector 1.
\<close>

theorem erase_command_per_sector_counterexample:
  "(case numicro_erase aprom_bank 0 1 (target_in TARGET_HALTED host_ok) of
      (retval, bank, t) \<Rightarrow> (retval, trace t))
   = (Inr (),
      [ReadU32 0x50000100, WriteU32 0x50000100 0x59, WriteU32 0x50000100 0x16,
       WriteU32 0x50000100 0x88, ReadU32 0x50000100,
       ReadU32 0x50000204, WriteU32 0x50000204 0x34,
       ReadU32 0x5000C000, WriteU32 0x5000C000 0x79, WriteU32 0x5000C01C 1,
       WriteU32 0x5000C00C 0x22,
       WriteU32 0x5000C004 0, WriteU32 0x5000C010 1, ReadU32 0x5000C010, ReadU32 0x5000C000,
       WriteU32 0x5000C004 0x200, WriteU32 0x5000C010 1, ReadU32 0x5000C010, ReadU32 0x5000C000])"
  by (simp add: erase_defs host_ok_def)

text \<open>
  Claim C2, as the code has it. On a host whose accesses all succeed, whose trigger
  register reads 0 and whose control register reads a value with the failure flag ISPFF
  set, \<open>numicro_erase\<close> of a range inside the bank does not abort: after each sector it
  writes the value back with ISPFF set (which clears the flag), goes on to the next sector,
  and returns \<open>ERROR_OK\<close> at the end of the range. The requests after
  \<open>numicro_init_isp\<close> are the command write and then, for each sector, address, GO, one
  poll, the read of the control register and the write-back.
\<close>

theorem erase_goes_on_after_failure_flag:
  assumes ok: "\<forall>tr ev. \<exists>v. host t tr ev = Inr v"
    and idle: "\<forall>tr. host t tr (ReadU32 NUMICRO_FLASH_ISPTRG) = Inr 0"
    and con: "\<forall>tr. host t tr (ReadU32 NUMICRO_FLASH_ISPCON) = Inr status"
    and flag: "status AND ISPCON_ISPFF \<noteq> 0"
    and halted: "state t = TARGET_HALTED"
    and range: "last' < length (sectors bank)"
  shows "numicro_erase bank first last' t
     = (Inr (), bank,
        (snd (numicro_init_isp t))
          \<lparr>trace := trace (snd (numicro_init_isp t))
                    @ WriteU32 NUMICRO_FLASH_ISPCMD ISPCMD_ERASE
                      # concat (map (\<lambda>i. [WriteU32 NUMICRO_FLASH_ISPADR (sector_address bank i),
                                          WriteU32 NUMICRO_FLASH_ISPTRG ISPTRG_ISPGO,
                                          ReadU32 NUMICRO_FLASH_ISPTRG,
                                          ReadU32 NUMICRO_FLASH_ISPCON,
                                          WriteU32 NUMICRO_FLASH_ISPCON (status OR ISPCON_ISPFF)])
                                  [first..<Suc last'])\<rparr>)"
proof -
  have "erase_sector_events bank status
      = (\<lambda>i. [WriteU32 NUMICRO_FLASH_ISPADR (sector_address bank i),
               WriteU32 NUMICRO_FLASH_ISPTRG ISPTRG_ISPGO,
               ReadU32 NUMICRO_FLASH_ISPTRG,
               ReadU32 NUMICRO_FLASH_ISPCON,
               WriteU32 NUMICRO_FLASH_ISPCON (status OR ISPCON_ISPFF)])"
    using flag by (simp add: erase_sector_events_def fun_eq_iff)
  with erase_run_ok [OF ok idle con halted range, of first] show ?thesis
    by simp
qed

theorem erase_goes_on_after_failure_flag_witness:
  "(\<forall>tr ev. \<exists>v. host (target_in TARGET_HALTED host_ispff) tr ev = Inr v)
   \<and> (\<forall>tr. host (target_in TARGET_HALTED host_ispff) tr (ReadU32 NUMICRO_FLASH_ISPTRG) = Inr 0)
   \<and> (\<forall>tr. host (target_in TARGET_HALTED host_ispff) tr (ReadU32 NUMICRO_FLASH_ISPCON) = Inr 0x40)
   \<and> 0x40 AND ISPCON_ISPFF \<noteq> 0
   \<and> state (target_in TARGET_HALTED host_ispff) = TARGET_HALTED
   \<and> 63 < length (sectors aprom_bank)
   \<and> fst (numicro_erase aprom_bank 0 63 (target_in TARGET_HALTED host_ispff)) = Inr ()
   \<and> length (filter (\<lambda>ev. ev = WriteU32 NUMICRO_FLASH_ISPTRG ISPTRG_ISPGO)
        (trace (snd (snd (numicro_erase aprom_bank 0 63 (target_in TARGET_HALTED host_ispff))))))
      = 64"
proof -
  let ?t = "target_in TARGET_HALTED host_ispff"
  have ok: "\<forall>tr ev. \<exists>v. host ?t tr ev = Inr v"
    using host_ok_never_fails by (simp add: target_in_def host_ispff_def)
  have idle: "\<forall>tr. host ?t tr (ReadU32 NUMICRO_FLASH_ISPTRG) = Inr 0"
    by (simp add: target_in_def host_ispff_def host_ok_def reg_defs)
  have con: "\<forall>tr. host ?t tr (ReadU32 NUMICRO_FLASH_ISPCON) = Inr 0x40"
    by (simp add: target_in_def host_ispff_def)
  have flag: "(0x40 :: u32) AND ISPCON_ISPFF \<noteq> 0"
    by (simp add: ISPCON_ISPFF_def)
  have halted: "state ?t = TARGET_HALTED"
    by (simp add: target_in_def)
  have range: "63 < length (sectors aprom_bank)"
    by (simp add: aprom_bank_def)
  note run = erase_goes_on_after_failure_flag [OF ok idle con flag halted range, of 0]
  have quiet: "filter (\<lambda>ev. ev = WriteU32 NUMICRO_FLASH_ISPTRG ISPTRG_ISPGO)
      (trace (snd (numicro_init_isp ?t))) = []"
    by (simp add: numicro_init_isp_def numicro_reg_unlock_def host_defs reg_defs target_in_def
        host_ispff_def host_ok_def)
  have count: "length (filter (\<lambda>ev. ev = WriteU32 NUMICRO_FLASH_ISPTRG ISPTRG_ISPGO)
      (concat (map (\<lambda>i. [WriteU32 NUMICRO_FLASH_ISPADR (sector_address aprom_bank i),
                          WriteU32 NUMICRO_FLASH_ISPTRG ISPTRG_ISPGO,
                          ReadU32 NUMICRO_FLASH_ISPTRG,
                          ReadU32 NUMICRO_FLASH_ISPCON,
                          WriteU32 NUMICRO_FLASH_ISPCON (0x40 OR ISPCON_ISPFF)]) xs))) = length xs" for xs
    by (induction xs) (simp_all add: reg_defs)
  have ne: "NUMICRO_FLASH_ISPCMD \<noteq> NUMICRO_FLASH_ISPTRG"
    by (simp add: reg_defs)
  have c7: "fst (numicro_erase aprom_bank 0 63 ?t) = Inr ()"
    using run by simp
  have c8: "length (filter (\<lambda>ev. ev = WriteU32 NUMICRO_FLASH_ISPTRG ISPTRG_ISPGO)
        (trace (snd (snd (numicro_erase aprom_bank 0 63 ?t))))) = 64"
    unfolding run by (simp add: quiet count ne del: upt_Suc)
  show ?thesis
    by (intro conjI) (rule ok idle con flag halted range c7 c8)+
qed

text \<open>
  Claim C2, as stated, fails: with the failure flag set after every sector, erasing
  sectors 0 and 1 returns \<open>ERROR_OK\<close>, and sector 1 is erased after the flag was found set
  for sector 0.
\<close>

theorem erase_failure_flag_counterexample:
  "(case numicro_erase aprom_bank 0 1 (target_in TARGET_HALTED host_ispff) of
      (retval, bank, t) \<Rightarrow> (retval, trace t))
   = (Inr (),
      [ReadU32 0x50000100, WriteU32 0x50000100 0x59, WriteU32 0x50000100 0x16,
       WriteU32 0x50000100 0x88, ReadU32 0x50000100,
       ReadU32 0x50000204, WriteU32 0x50000204 0x34,
       ReadU32 0x5000C000, WriteU32 0x5000C000 0x79, WriteU32 0x5000C01C 1,
       WriteU32 0x5000C00C 0x22,
       WriteU32 0x5000C004 0, WriteU32 0x5000C010 1, ReadU32 0x5000C010,
       ReadU32 0x5000C000, WriteU32 0x5000C000 0x40,
       WriteU32 0x5000C004 0x200, WriteU32 0x5000C010 1, ReadU32 0x5000C010,
       ReadU32 0x5000C000, WriteU32 0x5000C000 0x40])"
  by (simp add: erase_defs host_ispff_def host_ok_def)

section \<open>Write without working area\<close>






lemma registers_respond_update [simp]:
  "registers_respond (t\<lparr>trace := tr\<rparr>) = registers_respond t"
  "registers_respond (t\<lparr>working_areas := was\<rparr>) = registers_respond t"
  by (simp_all add: registers_respond_def)




lemma trigger_clears_update [simp]:
  "trigger_clears (t\<lparr>trace := tr\<rparr>) = trigger_clears t"
  by (simp add: trigger_clears_def)














end
